theory Spec2Isabelle
  imports
    Complex_Main
    "HOL-Library.AList"
    "HOL-Library.Product_Lexorder"
    "HOL-Library.Multiset"
begin

section \<open>Python strings and slices\<close>

text \<open>
  A Python \<^verbatim>\<open>str\<close> is a sequence of Unicode code points; it is modelled as a list of
  natural numbers, one per code point. \<open>py\<close> turns an ASCII literal into such a list.
  Only the messages of exceptions are plain HOL strings.
\<close>

type_synonym pystr = "nat list"

definition py :: "string \<Rightarrow> pystr" where
  "py s = map of_char s"

text \<open>\<^verbatim>\<open>str.isspace\<close> for one code point; also what \<^verbatim>\<open>\s\<close> matches in a \<^verbatim>\<open>str\<close> pattern.\<close>

definition is_space :: "nat \<Rightarrow> bool" where
  "is_space c \<longleftrightarrow>
     (9 \<le> c \<and> c \<le> 13) \<or> (28 \<le> c \<and> c \<le> 32) \<or> c = 133 \<or> c = 160 \<or> c = 5760 \<or>
     (8192 \<le> c \<and> c \<le> 8202) \<or> c = 8232 \<or> c = 8233 \<or> c = 8239 \<or> c = 8287 \<or> c = 12288"

text \<open>\<^verbatim>\<open>s.strip()\<close>\<close>

definition py_strip :: "pystr \<Rightarrow> pystr" where
  "py_strip s = rev (dropWhile is_space (rev (dropWhile is_space s)))"

text \<open>
  \<^verbatim>\<open>s.split("\n\n")\<close>: the occurrences of the separator are found from left to right
  and do not overlap; \<open>cur\<close> is the piece being read.
\<close>

fun split_nn :: "pystr \<Rightarrow> pystr \<Rightarrow> pystr list" where
  "split_nn cur [] = [cur]"
| "split_nn cur [c] = [cur @ [c]]"
| "split_nn cur (c # d # rest) =
     (if c = 10 \<and> d = 10 then cur # split_nn [] rest
      else split_nn (cur @ [c]) (d # rest))"

text \<open>
  Python's index normalisation inside a slice of a sequence of length \<open>n\<close>: a negative
  index counts from the end, and the result is clamped to \<open>0..n\<close>.
\<close>

definition py_index :: "nat \<Rightarrow> int \<Rightarrow> nat" where
  "py_index n k = (if k < 0 then nat (max (int n + k) 0) else min (nat k) n)"

text \<open>\<^verbatim>\<open>xs[i:j]\<close> and \<^verbatim>\<open>xs[i:]\<close>\<close>

definition py_slice :: "'a list \<Rightarrow> int \<Rightarrow> int \<Rightarrow> 'a list" where
  "py_slice xs i j =
     take (py_index (length xs) j - py_index (length xs) i) (drop (py_index (length xs) i) xs)"

definition py_slice_from :: "'a list \<Rightarrow> int \<Rightarrow> 'a list" where
  "py_slice_from xs i = drop (py_index (length xs) i) xs"

text \<open>\<^verbatim>\<open>sep.join(parts)\<close>\<close>

fun py_join :: "'a list \<Rightarrow> 'a list list \<Rightarrow> 'a list" where
  "py_join sep [] = []"
| "py_join sep [p] = p"
| "py_join sep (p # q # ps) = p @ sep @ py_join sep (q # ps)"

section \<open>The chunker (services/chunker.py)\<close>

text \<open>
  \<^verbatim>\<open>TextChunk\<close>. \<open>chunk_index\<close> and \<open>token_count\<close> only ever hold counters that start
  at 0 and lengths of lists, so they are natural numbers.
\<close>

record text_chunk =
  content :: pystr
  page_number :: "int option"
  chunk_index :: nat
  token_count :: nat

text \<open>\<^verbatim>\<open>ParsedPage\<close> and \<^verbatim>\<open>ParsedDocument\<close> (services/pdf_parser.py).\<close>

record parsed_page =
  pp_number :: int
  pp_text :: pystr

record parsed_document =
  pd_filename :: pystr
  pd_pages :: "parsed_page list"
  pd_page_count :: int

text \<open>\<^verbatim>\<open>ParsedDocument.full_text\<close>\<close>

definition full_text :: "parsed_document \<Rightarrow> pystr" where
  "full_text d = py_join [10, 10] (map pp_text (pd_pages d))"

text \<open>
  The \<^verbatim>\<open>Chunker\<close> object. The tokenizer is tiktoken's \<^verbatim>\<open>cl100k_base\<close> encoding, a
  library outside the repository: its two operations are fields of the record, and
  every theorem below holds for whatever they compute. The sizes are Python integers.
\<close>

record 'tok chunker =
  chunk_size :: int
  chunk_overlap :: int
  encode :: "pystr \<Rightarrow> 'tok list"
  decode :: "'tok list \<Rightarrow> pystr"

text \<open>
  \<^verbatim>\<open>Chunker.__init__\<close>: \<^verbatim>\<open>chunk_size or settings.chunk_size\<close> takes the setting when the
  argument is \<^verbatim>\<open>None\<close> or 0.
\<close>

definition py_or :: "int option \<Rightarrow> int \<Rightarrow> int" where
  "py_or arg dflt = (case arg of None \<Rightarrow> dflt | Some v \<Rightarrow> if v = 0 then dflt else v)"

definition init_chunker ::
  "int \<Rightarrow> int \<Rightarrow> (pystr \<Rightarrow> 'tok list) \<Rightarrow> ('tok list \<Rightarrow> pystr) \<Rightarrow> int option \<Rightarrow> int option \<Rightarrow> 'tok chunker"
where
  "init_chunker settings_chunk_size settings_chunk_overlap enc dec size_arg overlap_arg =
     \<lparr>chunk_size = py_or size_arg settings_chunk_size,
      chunk_overlap = py_or overlap_arg settings_chunk_overlap,
      encode = enc, decode = dec\<rparr>"

definition count_tokens :: "'tok chunker \<Rightarrow> pystr \<Rightarrow> nat" where
  "count_tokens ck text = length (encode ck text)"

text \<open>\<^verbatim>\<open>_get_overlap_text\<close>\<close>

definition get_overlap_text :: "'tok chunker \<Rightarrow> pystr \<Rightarrow> pystr" where
  "get_overlap_text ck text =
     (let tokens = encode ck text in
      if int (length tokens) \<le> chunk_overlap ck then text
      else decode ck (py_slice_from tokens (- chunk_overlap ck)))"

text \<open>\<^verbatim>\<open>_split_into_paragraphs\<close>\<close>

definition split_into_paragraphs :: "pystr \<Rightarrow> pystr list" where
  "split_into_paragraphs text = map py_strip (filter (\<lambda>p. py_strip p \<noteq> []) (split_nn [] text))"

text \<open>
  \<^verbatim>\<open>_split_into_sentences\<close> splits with the regular expression
  \<^verbatim>\<open>(?<=[.!?])\s+(?=[A-Z\u00c4\u00d6\u00dc])|(?<=[.!?])$\<close>. A match of the first alternative is a
  maximal run of whitespace that starts right after one of \<^verbatim>\<open>. ! ?\<close> and is followed by
  an upper-case letter of the class; the second alternative is an empty match after one
  of \<^verbatim>\<open>. ! ?\<close> at the end of the string or before a newline that ends it. \<open>re_split\<close>
  scans the string once: \<open>cur\<close> is the piece being read, \<open>pend\<close> the whitespace read since
  the last such punctuation mark (\<open>None\<close> when the scan is not in such a run).
\<close>

definition is_end_punct :: "nat \<Rightarrow> bool" where
  "is_end_punct c \<longleftrightarrow> c = 46 \<or> c = 33 \<or> c = 63"

definition is_upper_class :: "nat \<Rightarrow> bool" where
  "is_upper_class c \<longleftrightarrow> (65 \<le> c \<and> c \<le> 90) \<or> c = 196 \<or> c = 214 \<or> c = 220"

fun re_split :: "pystr \<Rightarrow> pystr option \<Rightarrow> pystr \<Rightarrow> pystr list" where
  "re_split cur None [] = [cur]"
| "re_split cur (Some ws) [] =
     (if ws = [] then [cur, []]
      else if ws = [10] then [cur, ws]
      else [cur @ ws])"
| "re_split cur None (c # cs) =
     (if is_end_punct c then re_split (cur @ [c]) (Some []) cs
      else re_split (cur @ [c]) None cs)"
| "re_split cur (Some ws) (c # cs) =
     (if is_space c then re_split cur (Some (ws @ [c])) cs
      else if ws \<noteq> [] \<and> is_upper_class c then cur # re_split [c] None cs
      else if is_end_punct c then re_split (cur @ ws @ [c]) (Some []) cs
      else re_split (cur @ ws @ [c]) None cs)"

definition split_into_sentences :: "pystr \<Rightarrow> pystr list" where
  "split_into_sentences text =
     map py_strip (filter (\<lambda>s. py_strip s \<noteq> []) (re_split [] None text))"

text \<open>
  \<^verbatim>\<open>_force_split_by_tokens\<close>. Two expressions of the loop body have a name here: the end
  of the window that starts at \<open>i\<close> in \<open>n\<close> tokens, and the value that \<open>i\<close> takes for the
  next iteration.
\<close>

definition window_end :: "'tok chunker \<Rightarrow> nat \<Rightarrow> int \<Rightarrow> int" where
  "window_end ck n i = min (i + chunk_size ck) (int n)"

definition next_start :: "'tok chunker \<Rightarrow> nat \<Rightarrow> int \<Rightarrow> int" where
  "next_start ck n i =
     (let end = window_end ck n i in if end < int n then end - chunk_overlap ck else end)"

text \<open>
  The \<^verbatim>\<open>while\<close> loop has no bound in the source, so the loop is a partial function: the
  value \<open>None\<close> stands for a run that never returns.
\<close>

partial_function (option) force_split_loop ::
  "'tok chunker \<Rightarrow> 'tok list \<Rightarrow> int option \<Rightarrow> int \<Rightarrow> nat \<Rightarrow> text_chunk list \<Rightarrow> text_chunk list option"
where
  "force_split_loop ck tokens page i idx chunks =
     (if i < int (length tokens) then
        (let chunk_tokens = py_slice tokens i (window_end ck (length tokens) i);
             chunk_text = decode ck chunk_tokens;
             chunks' = chunks @ [\<lparr>content = chunk_text, page_number = page,
                                  chunk_index = idx, token_count = length chunk_tokens\<rparr>]
         in force_split_loop ck tokens page (next_start ck (length tokens) i) (idx + 1) chunks')
      else Some chunks)"

declare force_split_loop.simps [code]

definition force_split_by_tokens ::
  "'tok chunker \<Rightarrow> pystr \<Rightarrow> int option \<Rightarrow> nat \<Rightarrow> text_chunk list option"
where
  "force_split_by_tokens ck text page start_index =
     force_split_loop ck (encode ck text) page 0 start_index []"

text \<open>
  The state of the two accumulation loops: the chunks so far, \<^verbatim>\<open>current_text\<close>,
  \<^verbatim>\<open>current_tokens\<close> and \<^verbatim>\<open>chunk_index\<close> (written \<open>idx\<close>, as the
  record field has the name).
\<close>

type_synonym buffer = "text_chunk list \<times> pystr \<times> nat \<times> nat"

text \<open>
  The flush that both loops perform before they hand a too-large piece on: the buffer
  is emitted with the running count \<^verbatim>\<open>current_tokens\<close> and reset, or left as it is when
  it is blank.
\<close>

definition flush_reset :: "int option \<Rightarrow> buffer \<Rightarrow> buffer" where
  "flush_reset page st =
     (case st of (chunks, current_text, current_tokens, idx) \<Rightarrow>
        if py_strip current_text \<noteq> [] then
          (chunks @ [\<lparr>content = py_strip current_text, page_number = page,
                      chunk_index = idx, token_count = current_tokens\<rparr>],
           [], 0, idx + 1)
        else (chunks, current_text, current_tokens, idx))"

text \<open>
  The branch taken when the next piece does not fit: flush with the running count and
  seed the buffer with the overlap tail, the separator and the piece.
\<close>

definition flush_overlap :: "'tok chunker \<Rightarrow> int option \<Rightarrow> pystr \<Rightarrow> pystr \<Rightarrow> nat \<Rightarrow> buffer \<Rightarrow> buffer" where
  "flush_overlap ck page sep piece piece_tokens st =
     (case st of (chunks, current_text, current_tokens, idx) \<Rightarrow>
        if py_strip current_text \<noteq> [] then
          (let current_text' = get_overlap_text ck current_text @ sep @ piece in
           (chunks @ [\<lparr>content = py_strip current_text, page_number = page,
                       chunk_index = idx, token_count = current_tokens\<rparr>],
            current_text', count_tokens ck current_text', idx + 1))
        else (chunks, piece, piece_tokens, idx))"

text \<open>The accumulating branch.\<close>

definition accumulate :: "'tok chunker \<Rightarrow> pystr \<Rightarrow> pystr \<Rightarrow> buffer \<Rightarrow> buffer" where
  "accumulate ck sep piece st =
     (case st of (chunks, current_text, current_tokens, idx) \<Rightarrow>
        (let current_text' = (if current_text \<noteq> [] then current_text @ sep @ piece else piece) in
         (chunks, current_text', count_tokens ck current_text', idx)))"

text \<open>The last chunk of a loop: its count is taken from the stripped text.\<close>

definition flush_last :: "'tok chunker \<Rightarrow> int option \<Rightarrow> buffer \<Rightarrow> text_chunk list" where
  "flush_last ck page st =
     (case st of (chunks, current_text, current_tokens, idx) \<Rightarrow>
        if py_strip current_text \<noteq> [] then
          chunks @ [\<lparr>content = py_strip current_text, page_number = page,
                     chunk_index = idx,
                     token_count = count_tokens ck (py_strip current_text)\<rparr>]
        else chunks)"

text \<open>\<^verbatim>\<open>_split_large_text\<close>: the loop over the sentences, then the last chunk.\<close>

fun split_large_loop ::
  "'tok chunker \<Rightarrow> int option \<Rightarrow> pystr list \<Rightarrow> buffer \<Rightarrow> buffer option"
where
  "split_large_loop ck page [] st = Some st"
| "split_large_loop ck page (sentence # rest) st =
     (let sentence_tokens = count_tokens ck sentence in
      if int sentence_tokens > chunk_size ck then
        (case flush_reset page st of (chunks, current_text, current_tokens, idx) \<Rightarrow>
           (case force_split_by_tokens ck sentence page idx of
              None \<Rightarrow> None
            | Some token_chunks \<Rightarrow>
                split_large_loop ck page rest
                  (chunks @ token_chunks, current_text, current_tokens,
                   idx + length token_chunks)))
      else if int (fst (snd (snd st))) + int sentence_tokens > chunk_size ck then
        split_large_loop ck page rest (flush_overlap ck page [32] sentence sentence_tokens st)
      else split_large_loop ck page rest (accumulate ck [32] sentence st))"

definition split_large_text ::
  "'tok chunker \<Rightarrow> pystr \<Rightarrow> int option \<Rightarrow> nat \<Rightarrow> text_chunk list option"
where
  "split_large_text ck text page start_index =
     map_option (flush_last ck page)
       (split_large_loop ck page (split_into_sentences text) ([], [], 0, start_index))"

text \<open>\<^verbatim>\<open>_chunk_page\<close>: the loop over the paragraphs, then the last chunk.\<close>

fun chunk_page_loop ::
  "'tok chunker \<Rightarrow> int option \<Rightarrow> pystr list \<Rightarrow> buffer \<Rightarrow> buffer option"
where
  "chunk_page_loop ck page [] st = Some st"
| "chunk_page_loop ck page (paragraph # rest) st =
     (let para_tokens = count_tokens ck paragraph in
      if int para_tokens > chunk_size ck then
        (case flush_reset page st of (chunks, current_text, current_tokens, idx) \<Rightarrow>
           (case split_large_text ck paragraph page idx of
              None \<Rightarrow> None
            | Some para_chunks \<Rightarrow>
                chunk_page_loop ck page rest
                  (chunks @ para_chunks, current_text, current_tokens,
                   idx + length para_chunks)))
      else if int (fst (snd (snd st))) + int para_tokens > chunk_size ck then
        chunk_page_loop ck page rest (flush_overlap ck page [10, 10] paragraph para_tokens st)
      else chunk_page_loop ck page rest (accumulate ck [10, 10] paragraph st))"

definition chunk_page :: "'tok chunker \<Rightarrow> parsed_page \<Rightarrow> nat \<Rightarrow> text_chunk list option" where
  "chunk_page ck page start_index =
     (if py_strip (pp_text page) = [] then Some []
      else map_option (flush_last ck (Some (pp_number page)))
             (chunk_page_loop ck (Some (pp_number page)) (split_into_paragraphs (pp_text page))
                ([], [], 0, start_index)))"

text \<open>\<^verbatim>\<open>chunk_document\<close>: the loop over the pages carries the list and the next index.\<close>

fun chunk_document_loop ::
  "'tok chunker \<Rightarrow> parsed_page list \<Rightarrow> text_chunk list \<Rightarrow> nat \<Rightarrow> text_chunk list option"
where
  "chunk_document_loop ck [] chunks idx = Some chunks"
| "chunk_document_loop ck (page # pages) chunks idx =
     (case chunk_page ck page idx of
        None \<Rightarrow> None
      | Some page_chunks \<Rightarrow>
          chunk_document_loop ck pages (chunks @ page_chunks) (idx + length page_chunks))"

definition chunk_document :: "'tok chunker \<Rightarrow> parsed_document \<Rightarrow> text_chunk list option" where
  "chunk_document ck document = chunk_document_loop ck (pd_pages document) [] 0"

text \<open>
  A small tokenizer to run the chunker on concrete pages: a run of newlines is one
  token, every other code point is a token of its own, and decoding concatenates. On
  texts made of single ASCII letters separated by blank lines it cuts where
  \<^verbatim>\<open>cl100k_base\<close> cuts.
\<close>

fun toy_encode :: "pystr \<Rightarrow> pystr list" where
  "toy_encode [] = []"
| "toy_encode (c # cs) =
     (if c = 10 then
        (case toy_encode cs of
           [] \<Rightarrow> [[c]]
         | t # ts \<Rightarrow> if t \<noteq> [] \<and> hd t = 10 then (c # t) # ts else [c] # t # ts)
      else [c] # toy_encode cs)"

definition toy_chunker :: "int \<Rightarrow> int \<Rightarrow> pystr chunker" where
  "toy_chunker sz ov =
     \<lparr>chunk_size = sz, chunk_overlap = ov, encode = toy_encode, decode = concat\<rparr>"

section \<open>Exceptions\<close>

text \<open>
  A raised exception is a value: its class, its message (\<^verbatim>\<open>str(e)\<close>) and the exception it
  was raised \<^verbatim>\<open>from\<close>. \<open>PendingRollbackError\<close> is the class of SQLAlchemy that a session raises
  when it is used after one of its flushes has failed; \<open>OtherException\<close> is any other
  subclass of \<^verbatim>\<open>Exception\<close> (a database or network error, a \<^verbatim>\<open>ValueError\<close>).
\<close>

datatype exn_class =
  PDFParserError | ClassificationError | EmbeddingError | ExtractionError
  | IngestionError | RAGError | PendingRollbackError | OtherException

datatype exn = Exn (exn_class: exn_class) (message: string) (cause: "exn option")

text \<open>\<^verbatim>\<open>raise Cls(f"{prefix}{e}") from e\<close>\<close>

definition raise_from :: "exn_class \<Rightarrow> string \<Rightarrow> exn \<Rightarrow> exn" where
  "raise_from cls prefix e = Exn cls (prefix @ message e) (Some e)"

section \<open>The embedder (services/embedder.py)\<close>

text \<open>
  The embeddings endpoint of the OpenAI client is a parameter: given the batch it
  either raises or returns \<^verbatim>\<open>response.data\<close>, a list of items with their \<^verbatim>\<open>index\<close> and
  their \<^verbatim>\<open>embedding\<close>. The type of a vector is left open.
\<close>

type_synonym 'v embeddings_create = "pystr list \<Rightarrow> exn + (int \<times> 'v) list"

definition MAX_BATCH_SIZE :: nat where
  "MAX_BATCH_SIZE = 2048"

text \<open>\<^verbatim>\<open>range(0, n, step)\<close> for a positive step.\<close>

definition py_range_step :: "nat \<Rightarrow> nat \<Rightarrow> nat list" where
  "py_range_step n step = map (\<lambda>k. k * step) [0..<(n + step - 1) div step]"

text \<open>
  The loop of \<^verbatim>\<open>embed_texts\<close> over the batch starts; \<^verbatim>\<open>sorted\<close> is stable, as
  \<open>sort_key\<close> is. The batch size is an argument, so that the loop can be run on short lists.
\<close>

fun embed_batches ::
  "'v embeddings_create \<Rightarrow> nat \<Rightarrow> pystr list \<Rightarrow> nat list \<Rightarrow> 'v list \<Rightarrow> exn + 'v list"
where
  "embed_batches create bs texts [] all_embeddings = Inr all_embeddings"
| "embed_batches create bs texts (i # starts) all_embeddings =
     (let batch = take bs (drop i texts) in
      case create batch of
        Inl e \<Rightarrow> Inl e
      | Inr data \<Rightarrow>
          (let sorted_data = sort_key fst data;
               batch_embeddings = map snd sorted_data
           in embed_batches create bs texts starts (all_embeddings @ batch_embeddings)))"

definition embed_texts_with :: "nat \<Rightarrow> 'v embeddings_create \<Rightarrow> pystr list \<Rightarrow> exn + 'v list" where
  "embed_texts_with bs create texts =
     (if texts = [] then Inr []
      else case embed_batches create bs texts (py_range_step (length texts) bs) [] of
             Inl e \<Rightarrow> Inl (raise_from EmbeddingError ''Failed to generate embeddings: '' e)
           | Inr all_embeddings \<Rightarrow> Inr all_embeddings)"

definition embed_texts :: "'v embeddings_create \<Rightarrow> pystr list \<Rightarrow> exn + 'v list" where
  "embed_texts = embed_texts_with MAX_BATCH_SIZE"

text \<open>
  \<^verbatim>\<open>embed_text\<close>: one text, the first item of the response. An empty response makes
  \<^verbatim>\<open>response.data[0]\<close> raise \<^verbatim>\<open>IndexError\<close> inside the \<^verbatim>\<open>try\<close>.
\<close>

definition embed_text :: "'v embeddings_create \<Rightarrow> pystr \<Rightarrow> exn + 'v" where
  "embed_text create text =
     (case create [text] of
        Inl e \<Rightarrow> Inl (raise_from EmbeddingError ''Failed to generate embedding: '' e)
      | Inr [] \<Rightarrow>
          Inl (raise_from EmbeddingError ''Failed to generate embedding: ''
                 (Exn OtherException ''list index out of range'' None))
      | Inr (item # _) \<Rightarrow> Inr (snd item))"

text \<open>\<^verbatim>\<open>embed_chunks\<close>; \<^verbatim>\<open>zip(..., strict=True)\<close> raises \<^verbatim>\<open>ValueError\<close> on unequal lengths.\<close>

definition embed_chunks ::
  "'v embeddings_create \<Rightarrow> text_chunk list \<Rightarrow> exn + (text_chunk \<times> 'v) list"
where
  "embed_chunks create chunks =
     (if chunks = [] then Inr []
      else case embed_texts create (map content chunks) of
             Inl e \<Rightarrow> Inl e
           | Inr embeddings \<Rightarrow>
               if length embeddings < length chunks then
                 Inl (Exn OtherException ''zip() argument 2 is shorter than argument 1'' None)
               else if length embeddings > length chunks then
                 Inl (Exn OtherException ''zip() argument 2 is longer than argument 1'' None)
               else Inr (zip chunks embeddings))"

section \<open>The database rows (db/models.py, core/models.py)\<close>

text \<open>A UUID is its 128-bit integer value, which is also how Python orders UUIDs.\<close>

type_synonym uuid = nat

datatype document_type =
  MIETVERTRAG | GUTACHTEN | GRUNDBUCHAUSZUG | NEBENKOSTENABRECHNUNG | UNKNOWN

datatype processing_status = PENDING | PROCESSING | COMPLETED | FAILED

record document_model =
  doc_filename :: pystr
  doc_document_type :: document_type
  doc_status :: processing_status
  doc_page_count :: "int option"
  doc_project_id :: "uuid option"

record 'v chunk_model =
  cm_id :: uuid
  cm_document_id :: uuid
  cm_content :: pystr
  cm_page_number :: "int option"
  cm_chunk_index :: nat
  cm_token_count :: nat
  cm_embedding :: 'v

record 'd extracted_data_model =
  ex_document_type :: document_type
  ex_data :: 'd
  ex_extraction_confidence :: "real option"

section \<open>The retriever (services/retriever.py)\<close>

text \<open>
  Similarity scores are Python floats. The model leaves their type \<open>'f\<close> open: it uses the
  order of the floats (a linear order, the value NaN apart, with \<^verbatim>\<open>-0.0\<close> and \<^verbatim>\<open>0.0\<close> taken
  as one value, as \<^verbatim>\<open>==\<close> takes them), the float \<^verbatim>\<open>0.0\<close> as \<open>0\<close>, and the binary64 product of
  a score and \<^verbatim>\<open>0.9\<close>, which is a parameter. No theorem relies on real arithmetic; the
  examples run on real numbers with the exact product.
\<close>

record 'f retrieved_chunk =
  rc_chunk_id :: uuid
  rc_document_id :: uuid
  rc_filename :: pystr
  rc_content :: pystr
  rc_page_number :: "int option"
  rc_score :: 'f

text \<open>
  What the retriever calls: the embedder's client, and three queries of the repositories
  (\<^verbatim>\<open>ChunkRepository.search_similar\<close>, \<^verbatim>\<open>DocumentRepository.get_by_id\<close>,
  \<^verbatim>\<open>ChunkRepository.get_by_document\<close>), whose results come from the database. The last
  field is no collaborator: it is the float product \<^verbatim>\<open>score * 0.9\<close> of the language.
\<close>

record ('v, 'f) retriever =
  rt_create :: "'v embeddings_create"
  rt_search_similar :: "'v \<Rightarrow> int \<Rightarrow> uuid option \<Rightarrow> uuid list option \<Rightarrow> ('v chunk_model \<times> 'f) list"
  rt_get_by_id :: "uuid \<Rightarrow> document_model option"
  rt_get_by_document :: "uuid \<Rightarrow> 'v chunk_model list"
  rt_default_top_k :: int
  rt_times_09 :: "'f \<Rightarrow> 'f"

text \<open>The cached lookup of a document's filename inside \<^verbatim>\<open>retrieve\<close>.\<close>

definition cached_filename ::
  "('v, 'f) retriever \<Rightarrow> (uuid \<rightharpoonup> pystr) \<Rightarrow> uuid \<Rightarrow> pystr \<times> (uuid \<rightharpoonup> pystr)"
where
  "cached_filename r doc_cache did =
     (case doc_cache did of
        Some name \<Rightarrow> (name, doc_cache)
      | None \<Rightarrow>
          (let name = (case rt_get_by_id r did of
                         Some doc \<Rightarrow> doc_filename doc
                       | None \<Rightarrow> py ''Unknown'')
           in (name, doc_cache(did \<mapsto> name))))"

fun retrieve_loop ::
  "('v, 'f::linorder) retriever \<Rightarrow> 'f \<Rightarrow> ('v chunk_model \<times> 'f) list \<Rightarrow> (uuid \<rightharpoonup> pystr) \<Rightarrow>
   'f retrieved_chunk list \<Rightarrow> 'f retrieved_chunk list"
where
  "retrieve_loop r min_score [] doc_cache retrieved_chunks = retrieved_chunks"
| "retrieve_loop r min_score ((chunk, score) # results) doc_cache retrieved_chunks =
     (if score < min_score then retrieve_loop r min_score results doc_cache retrieved_chunks
      else
        (case cached_filename r doc_cache (cm_document_id chunk) of (name, doc_cache') \<Rightarrow>
           retrieve_loop r min_score results doc_cache'
             (retrieved_chunks @
              [\<lparr>rc_chunk_id = cm_id chunk, rc_document_id = cm_document_id chunk,
                rc_filename = name, rc_content = cm_content chunk,
                rc_page_number = cm_page_number chunk, rc_score = score\<rparr>])))"

definition retrieve ::
  "('v, 'f::linorder) retriever \<Rightarrow> pystr \<Rightarrow> int option \<Rightarrow> uuid option \<Rightarrow> uuid list option \<Rightarrow> 'f \<Rightarrow>
   exn + 'f retrieved_chunk list"
where
  "retrieve r query top_k project_id document_ids min_score =
     (let top_k' = py_or top_k (rt_default_top_k r) in
      case embed_text (rt_create r) query of
        Inl e \<Rightarrow> Inl e
      | Inr query_embedding \<Rightarrow>
          Inr (retrieve_loop r min_score
                 (rt_search_similar r query_embedding top_k' project_id document_ids)
                 Map.empty []))"

text \<open>
  \<^verbatim>\<open>chunk_indices.get(chunk_id)\<close> for the dictionary
  \<^verbatim>\<open>{c.id: i for i, c in enumerate(doc_chunks)}\<close>: the last position with that id.
\<close>

definition chunk_indices_get :: "'v chunk_model list \<Rightarrow> uuid \<Rightarrow> nat option" where
  "chunk_indices_get doc_chunks cid =
     (case filter (\<lambda>i. cm_id (doc_chunks ! i) = cid) [0..<length doc_chunks] of
        [] \<Rightarrow> None
      | i # is \<Rightarrow> Some (last (i # is)))"

text \<open>
  The dictionary \<^verbatim>\<open>all_chunks\<close> keeps its keys in insertion order: an association list,
  where \<open>AList.update\<close> replaces the value of a key in place or appends a new key.
\<close>

type_synonym 'f all_chunks = "(uuid \<times> 'f retrieved_chunk) list"

text \<open>
  The inner loop over \<^verbatim>\<open>range(start_idx, end_idx)\<close>; \<open>times_09\<close> is the float product
  \<^verbatim>\<open>score * 0.9\<close>. The indices of the range are below the length of \<open>doc_chunks\<close>.
\<close>

fun context_loop ::
  "('f \<Rightarrow> 'f) \<Rightarrow> 'f retrieved_chunk \<Rightarrow> 'v chunk_model list \<Rightarrow> nat list \<Rightarrow> 'f all_chunks \<Rightarrow>
   'f all_chunks"
where
  "context_loop times_09 chunk doc_chunks [] all = all"
| "context_loop times_09 chunk doc_chunks (idx # idxs) all =
     (let ctx_chunk = doc_chunks ! idx in
      if map_of all (cm_id ctx_chunk) = None then
        (let context_score = times_09 (rc_score chunk) in
         context_loop times_09 chunk doc_chunks idxs
           (AList.update (cm_id ctx_chunk)
              \<lparr>rc_chunk_id = cm_id ctx_chunk, rc_document_id = cm_document_id ctx_chunk,
               rc_filename = rc_filename chunk, rc_content = cm_content ctx_chunk,
               rc_page_number = cm_page_number ctx_chunk, rc_score = context_score\<rparr>
              all))
      else context_loop times_09 chunk doc_chunks idxs all)"

fun primary_loop ::
  "('v, 'f) retriever \<Rightarrow> int \<Rightarrow> 'f retrieved_chunk list \<Rightarrow> 'f all_chunks \<Rightarrow> 'f all_chunks"
where
  "primary_loop r context_chunks [] all = all"
| "primary_loop r context_chunks (chunk # primary) all =
     (let all1 = AList.update (rc_chunk_id chunk) chunk all;
          doc_chunks = rt_get_by_document r (rc_document_id chunk)
      in case chunk_indices_get doc_chunks (rc_chunk_id chunk) of
           None \<Rightarrow> primary_loop r context_chunks primary all1
         | Some current_idx \<Rightarrow>
             (let start_idx = max 0 (int current_idx - context_chunks);
                  end_idx = min (int (length doc_chunks)) (int current_idx + context_chunks + 1)
              in primary_loop r context_chunks primary
                   (context_loop (rt_times_09 r) chunk doc_chunks
                      [nat start_idx..<nat end_idx] all1)))"

text \<open>The sort key \<^verbatim>\<open>(c.document_id, c.page_number or 0, c.score)\<close>.\<close>

definition context_sort_key :: "'f retrieved_chunk \<Rightarrow> uuid \<times> int \<times> 'f" where
  "context_sort_key c =
     (rc_document_id c, (case rc_page_number c of None \<Rightarrow> 0 | Some p \<Rightarrow> p), rc_score c)"

definition retrieve_with_context ::
  "('v, 'f::{zero, linorder}) retriever \<Rightarrow> pystr \<Rightarrow> int option \<Rightarrow> uuid option \<Rightarrow>
   uuid list option \<Rightarrow> int \<Rightarrow> exn + 'f retrieved_chunk list"
where
  "retrieve_with_context r query top_k project_id document_ids context_chunks =
     (case retrieve r query top_k project_id document_ids 0 of
        Inl e \<Rightarrow> Inl e
      | Inr primary_chunks \<Rightarrow>
          if primary_chunks = [] \<or> context_chunks = 0 then Inr primary_chunks
          else Inr (sort_key context_sort_key
                      (map snd (primary_loop r context_chunks primary_chunks []))))"

section \<open>The answer engine (services/rag.py)\<close>

text \<open>The two prompt texts, code point by code point.\<close>

definition RAG_SYSTEM_PROMPT :: pystr where
  "RAG_SYSTEM_PROMPT =
     py ''Du bist ein Experte f'' @
     [252] @
     py ''r Immobiliendokumente und beantwortest Fragen basierend auf '' @
     py ''den bereitgestellten Dokumentausschnitten.'' @
     [10, 10] @
     py ''Regeln:'' @
     [10] @
     py ''1. Antworte NUR basierend auf den bereitgestellten Quellen'' @
     [10] @
     py ''2. Wenn die Quellen keine Antwort enthalten, sage das ehrlic'' @
     py ''h'' @
     [10] @
     py ''3. Zitiere relevante Quellen mit [Quellenname, Seite X]'' @
     [10] @
     py ''4. Antworte auf Deutsch'' @
     [10] @
     py ''5. Sei pr'' @
     [228] @
     py ''zise und konkret, vermeide Spekulationen'' @
     [10] @
     py ''6. Bei Zahlen und Daten: gib sie exakt wie in den Quellen an''"

text \<open>\<^verbatim>\<open>RAG_USER_PROMPT.format(question=question, context=context)\<close>\<close>

definition rag_user_prompt :: "pystr \<Rightarrow> pystr \<Rightarrow> pystr" where
  "rag_user_prompt question context =
     py ''Beantworte die folgende Frage basierend auf den Dokumentauss'' @
     py ''chnitten:'' @
     [10, 10] @
     py ''FRAGE: '' @
     question @
     [10, 10] @
     py ''DOKUMENTAUSSCHNITTE:'' @
     [10] @
     context @
     [10, 10] @
     py ''Antworte pr'' @
     [228] @
     py ''zise und zitiere die relevanten Quellen.''"

text \<open>\<^verbatim>\<open>str(n)\<close> for an integer.\<close>

fun py_str_nat :: "nat \<Rightarrow> pystr" where
  "py_str_nat n = (if n < 10 then [48 + n] else py_str_nat (n div 10) @ [48 + n mod 10])"

declare py_str_nat.simps [simp del]

definition py_str_int :: "int \<Rightarrow> pystr" where
  "py_str_int k = (if k < 0 then 45 # py_str_nat (nat (- k)) else py_str_nat (nat k))"

text \<open>
  \<^verbatim>\<open>RAGConfig\<close>. The minimum score is a score; the temperature is only passed on to the chat
  endpoint.
\<close>

record 'f rag_config =
  cfg_top_k :: int
  cfg_include_context :: bool
  cfg_context_chunks :: int
  cfg_min_score :: 'f
  cfg_max_tokens :: int
  cfg_temperature :: real

text \<open>The defaults of \<^verbatim>\<open>RAGConfig\<close>.\<close>

definition default_rag_config :: "real rag_config" where
  "default_rag_config =
     \<lparr>cfg_top_k = 5, cfg_include_context = True, cfg_context_chunks = 1,
      cfg_min_score = 0.3, cfg_max_tokens = 1000, cfg_temperature = 0.1\<rparr>"

record query_request =
  rq_question :: pystr
  rq_project_id :: "uuid option"
  rq_document_ids :: "uuid list option"
  rq_top_k :: int

record 'f source =
  src_document_id :: uuid
  src_filename :: pystr
  src_page_number :: "int option"
  src_chunk_content :: pystr
  src_score :: 'f

record 'f query_response =
  resp_answer :: pystr
  resp_sources :: "'f source list"
  resp_query :: pystr

text \<open>
  The chat endpoint of the OpenAI client, as the answer engine calls it: the system
  message, the user message, \<^verbatim>\<open>max_tokens\<close> and \<^verbatim>\<open>temperature\<close>; it raises or returns the
  content of the first choice.
\<close>

type_synonym chat_create = "pystr \<Rightarrow> pystr \<Rightarrow> int \<Rightarrow> real \<Rightarrow> exn + pystr"

text \<open>\<^verbatim>\<open>_build_context\<close>; \<open>i\<close> counts from 1.\<close>

fun context_parts :: "nat \<Rightarrow> 'f retrieved_chunk list \<Rightarrow> pystr list" where
  "context_parts i [] = []"
| "context_parts i (chunk # chunks) =
     (let page_info = (case rc_page_number chunk of
                         None \<Rightarrow> []
                       | Some p \<Rightarrow> if p = 0 then [] else py '', Seite '' @ py_str_int p);
          header = py ''[Quelle '' @ py_str_nat i @ py '': '' @ rc_filename chunk @ page_info @ py '']''
      in (header @ [10] @ rc_content chunk) # context_parts (i + 1) chunks)"

definition build_context :: "'f retrieved_chunk list \<Rightarrow> pystr" where
  "build_context chunks = py_join ([10, 10] @ py ''---'' @ [10, 10]) (context_parts 1 chunks)"

text \<open>
  \<^verbatim>\<open>_build_sources\<close>: the loop with the set \<^verbatim>\<open>seen\<close>, then \<^verbatim>\<open>sort\<close> with \<^verbatim>\<open>reverse=True\<close>, which
  sorts in descending order and keeps sources of equal score in their order: the stable
  ascending sort of the reversed list, reversed.
\<close>

fun sources_loop ::
  "'f retrieved_chunk list \<Rightarrow> (uuid \<times> int option) set \<Rightarrow> 'f source list \<Rightarrow> 'f source list"
where
  "sources_loop [] seen sources = sources"
| "sources_loop (chunk # chunks) seen sources =
     (let key = (rc_document_id chunk, rc_page_number chunk) in
      if key \<in> seen then sources_loop chunks seen sources
      else sources_loop chunks (insert key seen)
             (sources @
              [\<lparr>src_document_id = rc_document_id chunk, src_filename = rc_filename chunk,
                src_page_number = rc_page_number chunk,
                src_chunk_content = take 500 (rc_content chunk),
                src_score = rc_score chunk\<rparr>]))"

definition build_sources :: "('f::linorder) retrieved_chunk list \<Rightarrow> 'f source list" where
  "build_sources chunks = rev (sort_key src_score (rev (sources_loop chunks {} [])))"

definition NO_INFORMATION_ANSWER :: pystr where
  "NO_INFORMATION_ANSWER =
     py ''Ich konnte keine relevanten Informationen in den Dokumenten finden.''"

text \<open>
  \<^verbatim>\<open>RAGService.query\<close>. Beside the response or the \<^verbatim>\<open>RAGError\<close>, the model returns the
  user messages that were sent to the chat endpoint, in order: the list is empty exactly
  when the generation service was not invoked.
\<close>

definition rag_query ::
  "'f rag_config \<Rightarrow> ('v, 'f::{zero, linorder}) retriever \<Rightarrow> chat_create \<Rightarrow> query_request \<Rightarrow>
   (exn + 'f query_response) \<times> pystr list"
where
  "rag_query config r chat request =
     (let top_k = py_or (Some (rq_top_k request)) (cfg_top_k config);
          retrieved =
            (if cfg_include_context config then
               retrieve_with_context r (rq_question request) (Some top_k)
                 (rq_project_id request) (rq_document_ids request) (cfg_context_chunks config)
             else
               retrieve r (rq_question request) (Some top_k)
                 (rq_project_id request) (rq_document_ids request) (cfg_min_score config))
      in case retrieved of
           Inl e \<Rightarrow> (Inl (raise_from RAGError ''Query failed: '' e), [])
         | Inr chunks \<Rightarrow>
             if chunks = [] then
               (Inr \<lparr>resp_answer = NO_INFORMATION_ANSWER, resp_sources = [],
                     resp_query = rq_question request\<rparr>, [])
             else
               (let context = build_context chunks;
                    user_prompt = rag_user_prompt (rq_question request) context
                in case chat RAG_SYSTEM_PROMPT user_prompt (cfg_max_tokens config)
                          (cfg_temperature config) of
                     Inl e \<Rightarrow> (Inl (raise_from RAGError ''Query failed: '' e), [user_prompt])
                   | Inr answer_content \<Rightarrow>
                       (Inr \<lparr>resp_answer = py_strip answer_content,
                             resp_sources = build_sources chunks,
                             resp_query = rq_question request\<rparr>, [user_prompt])))"

section \<open>Classifier and extractor (services/classifier.py, services/extractor.py)\<close>

text \<open>
  \<^verbatim>\<open>DocumentClassifier.classify\<close>. The parameter \<open>label\<close> is the chat call on the sample
  together with \<^verbatim>\<open>.strip().lower()\<close> of its answer.
\<close>

definition type_mapping_get :: "pystr \<Rightarrow> document_type" where
  "type_mapping_get result =
     (if result = py ''mietvertrag'' then MIETVERTRAG
      else if result = py ''gutachten'' then GUTACHTEN
      else if result = py ''grundbuchauszug'' then GRUNDBUCHAUSZUG
      else if result = py ''nebenkostenabrechnung'' then NEBENKOSTENABRECHNUNG
      else UNKNOWN)"

definition classify :: "(pystr \<Rightarrow> exn + pystr) \<Rightarrow> pystr \<Rightarrow> exn + document_type" where
  "classify label text =
     (if py_strip text = [] then Inr UNKNOWN
      else case label (take 3000 text) of
             Inl e \<Rightarrow> Inl (raise_from ClassificationError ''Failed to classify document: '' e)
           | Inr result \<Rightarrow> Inr (type_mapping_get result))"

text \<open>
  \<^verbatim>\<open>DataExtractor.extract\<close> (\<open>extract\<close> being a command of Isabelle, the name is
  prefixed). The parameter \<open>core\<close> is the body of its \<^verbatim>\<open>try\<close>: the chat
  call, the JSON parsing, the validation with its repair pass and the confidence. An
  \<^verbatim>\<open>ExtractionError\<close> raised there passes unchanged, any other exception is wrapped. The
  four known types all have a model and a prompt.
\<close>

definition extractor_extract ::
  "(pystr \<Rightarrow> document_type \<Rightarrow> exn + 'd \<times> real) \<Rightarrow> pystr \<Rightarrow> document_type \<Rightarrow> exn + 'd \<times> real"
where
  "extractor_extract core text document_type =
     (if document_type = UNKNOWN then
        Inl (Exn ExtractionError ''Cannot extract data from unknown document type'' None)
      else case core text document_type of
             Inl e \<Rightarrow>
               if exn_class e = ExtractionError then Inl e
               else Inl (raise_from ExtractionError ''Extraction failed: '' e)
           | Inr result \<Rightarrow> Inr result)"

section \<open>The repositories (db/repository.py)\<close>

text \<open>
  The database as the pipeline sees it: the documents by id, the chunk rows in the
  order of insertion, at most one extracted record per document, and the number of
  ids generated so far.
\<close>

record ('v, 'd) store =
  st_documents :: "uuid \<rightharpoonup> document_model"
  st_chunks :: "'v chunk_model list"
  st_extracted :: "uuid \<rightharpoonup> 'd extracted_data_model"
  st_uuid_count :: nat

definition doc_repo_create ::
  "(nat \<Rightarrow> uuid) \<Rightarrow> ('v, 'd) store \<Rightarrow> pystr \<Rightarrow> document_type \<Rightarrow> uuid option \<Rightarrow>
   uuid \<times> ('v, 'd) store"
where
  "doc_repo_create uuid4 s filename document_type project_id =
     (let new_id = uuid4 (st_uuid_count s) in
      (new_id,
       s\<lparr>st_documents := (st_documents s)(new_id \<mapsto>
            \<lparr>doc_filename = filename, doc_document_type = document_type,
             doc_status = PENDING, doc_page_count = None, doc_project_id = project_id\<rparr>),
         st_uuid_count := st_uuid_count s + 1\<rparr>))"

definition doc_repo_update_status ::
  "('v, 'd) store \<Rightarrow> uuid \<Rightarrow> processing_status \<Rightarrow> int option \<Rightarrow> ('v, 'd) store"
where
  "doc_repo_update_status s document_id status page_count =
     (case st_documents s document_id of
        None \<Rightarrow> s
      | Some document \<Rightarrow>
          s\<lparr>st_documents := (st_documents s)(document_id \<mapsto>
               document\<lparr>doc_status := status,
                         doc_page_count := (case page_count of
                                              None \<Rightarrow> doc_page_count document
                                            | Some n \<Rightarrow> Some n)\<rparr>)\<rparr>)"

definition doc_repo_update_type ::
  "('v, 'd) store \<Rightarrow> uuid \<Rightarrow> document_type \<Rightarrow> ('v, 'd) store"
where
  "doc_repo_update_type s document_id document_type =
     (case st_documents s document_id of
        None \<Rightarrow> s
      | Some document \<Rightarrow>
          s\<lparr>st_documents := (st_documents s)(document_id \<mapsto>
               document\<lparr>doc_document_type := document_type\<rparr>)\<rparr>)"

fun chunk_rows ::
  "(nat \<Rightarrow> uuid) \<Rightarrow> nat \<Rightarrow> uuid \<Rightarrow> (text_chunk \<times> 'v) list \<Rightarrow> 'v chunk_model list"
where
  "chunk_rows uuid4 n document_id [] = []"
| "chunk_rows uuid4 n document_id ((chunk, embedding) # rest) =
     \<lparr>cm_id = uuid4 n, cm_document_id = document_id, cm_content = content chunk,
      cm_page_number = page_number chunk, cm_chunk_index = chunk_index chunk,
      cm_token_count = token_count chunk, cm_embedding = embedding\<rparr>
     # chunk_rows uuid4 (n + 1) document_id rest"

definition chunk_repo_create_many ::
  "(nat \<Rightarrow> uuid) \<Rightarrow> ('v, 'd) store \<Rightarrow> uuid \<Rightarrow> (text_chunk \<times> 'v) list \<Rightarrow> ('v, 'd) store"
where
  "chunk_repo_create_many uuid4 s document_id chunk_data =
     s\<lparr>st_chunks := st_chunks s @ chunk_rows uuid4 (st_uuid_count s) document_id chunk_data,
       st_uuid_count := st_uuid_count s + length chunk_data\<rparr>"

definition extracted_repo_create ::
  "('v, 'd) store \<Rightarrow> uuid \<Rightarrow> document_type \<Rightarrow> 'd \<Rightarrow> real \<Rightarrow> ('v, 'd) store"
where
  "extracted_repo_create s document_id document_type data confidence =
     s\<lparr>st_extracted := (st_extracted s)(document_id \<mapsto>
          \<lparr>ex_document_type = document_type, ex_data = data,
           ex_extraction_confidence = Some confidence\<rparr>)\<rparr>"

definition extracted_repo_update ::
  "('v, 'd) store \<Rightarrow> uuid \<Rightarrow> 'd \<Rightarrow> real \<Rightarrow> ('v, 'd) store"
where
  "extracted_repo_update s document_id data confidence =
     (case st_extracted s document_id of
        None \<Rightarrow> s
      | Some extracted \<Rightarrow>
          s\<lparr>st_extracted := (st_extracted s)(document_id \<mapsto>
               extracted\<lparr>ex_data := data, ex_extraction_confidence := Some confidence\<rparr>)\<rparr>)"

section \<open>The ingestion pipeline (services/ingestion.py)\<close>

text \<open>
  The collaborators of one pipeline: the two entry points of the parser, the
  classifier's chat call, the chunker, the embedder's client, the body of the
  extractor, the exception (if any) that the flush of \<^verbatim>\<open>create_many\<close> raises, the message
  of the \<open>PendingRollbackError\<close> that the session raises after a flush that failed with a
  given exception, and the supply of fresh ids. The other repository calls are the ones
  above; their flushes do not fail.
\<close>

record ('v, 'd) pipeline =
  pl_parse :: "pystr \<Rightarrow> exn + parsed_document"
  pl_parse_bytes :: "nat list \<Rightarrow> pystr \<Rightarrow> exn + parsed_document"
  pl_label :: "pystr \<Rightarrow> exn + pystr"
  pl_chunk_document :: "parsed_document \<Rightarrow> exn + text_chunk list"
  pl_create :: "'v embeddings_create"
  pl_extract_core :: "pystr \<Rightarrow> document_type \<Rightarrow> exn + 'd \<times> real"
  pl_create_many_error :: "exn option"
  pl_rollback_message :: "exn \<Rightarrow> string"
  pl_uuid4 :: "nat \<Rightarrow> uuid"

text \<open>\<^verbatim>\<open>_extract_and_store\<close>: an \<^verbatim>\<open>ExtractionError\<close> is logged and swallowed.\<close>

definition extract_and_store ::
  "('v, 'd) pipeline \<Rightarrow> ('v, 'd) store \<Rightarrow> uuid \<Rightarrow> pystr \<Rightarrow> document_type \<Rightarrow>
   exn + ('v, 'd) store"
where
  "extract_and_store pl s document_id text document_type =
     (case extractor_extract (pl_extract_core pl) text document_type of
        Inr (extracted_data, confidence) \<Rightarrow>
          Inr (extracted_repo_create s document_id document_type extracted_data confidence)
      | Inl e \<Rightarrow> if exn_class e = ExtractionError then Inr s else Inl e)"

text \<open>
  The body of the \<^verbatim>\<open>try\<close> block, which \<^verbatim>\<open>ingest_file\<close> and \<^verbatim>\<open>ingest_bytes\<close> share word for
  word; \<open>parsed\<close> is the outcome of the parser call. It returns the exception that left
  the block, if one did, whether a flush of the session has failed, and the store as it
  was then. The pipeline has one session and never calls \<^verbatim>\<open>rollback\<close>: once a flush has
  failed, the transaction of the session is rolled back and every later use of the
  session raises \<open>PendingRollbackError\<close>.
\<close>

definition ingest_try ::
  "('v, 'd) pipeline \<Rightarrow> ('v, 'd) store \<Rightarrow> uuid \<Rightarrow> exn + parsed_document \<Rightarrow> document_type \<Rightarrow>
   bool \<Rightarrow> exn option \<times> bool \<times> ('v, 'd) store"
where
  "ingest_try pl s0 document_id parsed document_type auto_extract =
     (let s1 = doc_repo_update_status s0 document_id PROCESSING None in
      case parsed of
        Inl e \<Rightarrow> (Some e, False, s1)
      | Inr parsed_doc \<Rightarrow>
          (let text = full_text parsed_doc in
           case (if document_type = UNKNOWN then
                   (case classify (pl_label pl) text of
                      Inl e \<Rightarrow> Inl e
                    | Inr t \<Rightarrow> Inr (t, doc_repo_update_type s1 document_id t))
                 else Inr (document_type, s1)) of
             Inl e \<Rightarrow> (Some e, False, s1)
           | Inr (document_type', s2) \<Rightarrow>
               (case pl_chunk_document pl parsed_doc of
                  Inl e \<Rightarrow> (Some e, False, s2)
                | Inr chunks \<Rightarrow>
                    if chunks = [] then
                      (None, False, doc_repo_update_status s2 document_id COMPLETED
                               (Some (pd_page_count parsed_doc)))
                    else
                      (case embed_chunks (pl_create pl) chunks of
                         Inl e \<Rightarrow> (Some e, False, s2)
                       | Inr chunks_with_embeddings \<Rightarrow>
                           (case pl_create_many_error pl of
                              Some e \<Rightarrow> (Some e, True, s2)
                            | None \<Rightarrow>
                                (let s3 = chunk_repo_create_many (pl_uuid4 pl) s2 document_id
                                            chunks_with_embeddings
                                 in case (if auto_extract \<and> document_type' \<noteq> UNKNOWN then
                                            extract_and_store pl s3 document_id text document_type'
                                          else Inr s3) of
                                      Inl e \<Rightarrow> (Some e, False, s3)
                                    | Inr s4 \<Rightarrow>
                                        (None, False, doc_repo_update_status s4 document_id COMPLETED
                                                 (Some (pd_page_count parsed_doc)))))))))"

text \<open>
  The record creation, the \<^verbatim>\<open>try\<close> block and its two handlers. Each handler writes the
  status \<open>FAILED\<close> first. After a failed flush this write raises \<open>PendingRollbackError\<close>,
  which leaves the handler in place of the \<^verbatim>\<open>IngestionError\<close>; the rows that the call wrote
  are gone with the transaction (which the model takes to begin with the call), the ids
  stay used.
\<close>

definition ingest ::
  "('v, 'd) pipeline \<Rightarrow> ('v, 'd) store \<Rightarrow> pystr \<Rightarrow> exn + parsed_document \<Rightarrow> document_type \<Rightarrow>
   uuid option \<Rightarrow> bool \<Rightarrow> (exn + uuid) \<times> ('v, 'd) store"
where
  "ingest pl s filename parsed document_type project_id auto_extract =
     (case doc_repo_create (pl_uuid4 pl) s filename document_type project_id of
        (document_id, s0) \<Rightarrow>
          (case ingest_try pl s0 document_id parsed document_type auto_extract of
             (None, rolled_back, s') \<Rightarrow> (Inr document_id, s')
           | (Some e, rolled_back, s') \<Rightarrow>
               (let update_status_failed =
                      (if rolled_back then
                         Inl (Exn PendingRollbackError (pl_rollback_message pl e) None,
                              s\<lparr>st_uuid_count := st_uuid_count s'\<rparr>)
                       else Inr (doc_repo_update_status s' document_id FAILED None))
                in if exn_class e = PDFParserError then
                     (case update_status_failed of
                        Inl (pending, s'') \<Rightarrow> (Inl pending, s'')
                      | Inr s'' \<Rightarrow>
                          (Inl (raise_from IngestionError ''Failed to parse PDF: '' e), s''))
                   else
                     (case update_status_failed of
                        Inl (pending, s'') \<Rightarrow> (Inl pending, s'')
                      | Inr s'' \<Rightarrow>
                          (Inl (raise_from IngestionError ''Ingestion failed: '' e), s'')))))"

text \<open>
  \<^verbatim>\<open>file_path.name\<close> for a POSIX path, given by the string it is made of: the components
  are the parts between slashes, the empty ones and the ones that are a single dot left
  out, and the name is the last component, or the empty string where there is none
  (as for \<^verbatim>\<open>.\<close> and \<^verbatim>\<open>/\<close>).
\<close>

fun path_parts :: "pystr \<Rightarrow> pystr \<Rightarrow> pystr list" where
  "path_parts part [] = [part]"
| "path_parts part (c # cs) =
     (if c = 47 then part # path_parts [] cs else path_parts (part @ [c]) cs)"

definition path_name :: "pystr \<Rightarrow> pystr" where
  "path_name file_path =
     (case rev (filter (\<lambda>part. part \<noteq> [] \<and> part \<noteq> [46]) (path_parts [] file_path)) of
        [] \<Rightarrow> []
      | name # parts \<Rightarrow> name)"

definition ingest_file ::
  "('v, 'd) pipeline \<Rightarrow> ('v, 'd) store \<Rightarrow> pystr \<Rightarrow> document_type \<Rightarrow> uuid option \<Rightarrow> bool \<Rightarrow>
   (exn + uuid) \<times> ('v, 'd) store"
where
  "ingest_file pl s file_path document_type project_id auto_extract =
     ingest pl s (path_name file_path) (pl_parse pl file_path) document_type project_id
       auto_extract"

definition ingest_bytes ::
  "('v, 'd) pipeline \<Rightarrow> ('v, 'd) store \<Rightarrow> nat list \<Rightarrow> pystr \<Rightarrow> document_type \<Rightarrow> uuid option \<Rightarrow>
   bool \<Rightarrow> (exn + uuid) \<times> ('v, 'd) store"
where
  "ingest_bytes pl s file_content filename document_type project_id auto_extract =
     ingest pl s filename (pl_parse_bytes pl file_content filename) document_type project_id
       auto_extract"

text \<open>
  \<^verbatim>\<open>extract_document\<close>. \<^verbatim>\<open>document.chunks\<close> are the chunk rows of the document; the result
  is the returned dictionary, \<open>None\<close> for Python's \<^verbatim>\<open>None\<close>, or the exception that escapes.
\<close>

definition extract_document ::
  "('v, 'd) pipeline \<Rightarrow> ('v, 'd) store \<Rightarrow> uuid \<Rightarrow> bool \<Rightarrow> (exn + 'd option) \<times> ('v, 'd) store"
where
  "extract_document pl s document_id force =
     (let existing = st_extracted s document_id in
      if existing \<noteq> None \<and> \<not> force then (Inr (map_option ex_data existing), s)
      else case st_documents s document_id of
             None \<Rightarrow> (Inr None, s)
           | Some document \<Rightarrow>
               if doc_document_type document = UNKNOWN then (Inr None, s)
               else
                 (let chunks = sort_key cm_chunk_index
                                 (filter (\<lambda>c. cm_document_id c = document_id) (st_chunks s));
                      text = py_join [10, 10] (map cm_content chunks)
                  in case extractor_extract (pl_extract_core pl) text (doc_document_type document) of
                       Inr (extracted_data, confidence) \<Rightarrow>
                         (Inr (Some extracted_data),
                          if existing \<noteq> None then
                            extracted_repo_update s document_id extracted_data confidence
                          else
                            extracted_repo_create s document_id (doc_document_type document)
                              extracted_data confidence)
                     | Inl e \<Rightarrow>
                         if exn_class e = ExtractionError then (Inr None, s) else (Inl e, s)))"

section \<open>Notions used in the statements\<close>

text \<open>
  The invariant of the accumulation loops: the chunks emitted since the index \<open>s\<close> carry
  the indices \<open>s, s + 1, ...\<close> and the running index is the next one.
\<close>

definition idx_inv :: "nat \<Rightarrow> buffer \<Rightarrow> bool" where
  "idx_inv s st =
     (case st of (chunks, current_text, current_tokens, idx) \<Rightarrow>
        idx = s + length chunks \<and> map chunk_index chunks = [s..<idx])"

text \<open>
  The pair that \<^verbatim>\<open>_build_sources\<close> deduplicates by, for a chunk and for a source, and the
  source made from a chunk.
\<close>

definition chunk_key :: "'f retrieved_chunk \<Rightarrow> uuid \<times> int option" where
  "chunk_key c = (rc_document_id c, rc_page_number c)"

definition source_key :: "'f source \<Rightarrow> uuid \<times> int option" where
  "source_key s = (src_document_id s, src_page_number s)"

definition chunk_source :: "'f retrieved_chunk \<Rightarrow> 'f source" where
  "chunk_source c =
     \<lparr>src_document_id = rc_document_id c, src_filename = rc_filename c,
      src_page_number = rc_page_number c, src_chunk_content = take 500 (rc_content c),
      src_score = rc_score c\<rparr>"

text \<open>
  The list of chunks that \<^verbatim>\<open>RAGService.query\<close> retrieves for a request.
\<close>

definition query_chunks ::
  "'f rag_config \<Rightarrow> ('v, 'f::{zero, linorder}) retriever \<Rightarrow> query_request \<Rightarrow>
   exn + 'f retrieved_chunk list"
where
  "query_chunks config r request =
     (if cfg_include_context config then
        retrieve_with_context r (rq_question request)
          (Some (py_or (Some (rq_top_k request)) (cfg_top_k config)))
          (rq_project_id request) (rq_document_ids request) (cfg_context_chunks config)
      else
        retrieve r (rq_question request)
          (Some (py_or (Some (rq_top_k request)) (cfg_top_k config)))
          (rq_project_id request) (rq_document_ids request) (cfg_min_score config))"

text \<open>
  The chunk that \<^verbatim>\<open>retrieve_with_context\<close> makes of a row \<open>row\<close> next to the primary chunk
  \<open>p\<close>: the id, the document, the content and the page of the row, the filename of \<open>p\<close> and
  the score of \<open>p\<close> times 0.9.
\<close>

definition context_chunk ::
  "('v, 'f) retriever \<Rightarrow> 'f retrieved_chunk \<Rightarrow> 'v chunk_model \<Rightarrow> 'f retrieved_chunk"
where
  "context_chunk r p row =
     \<lparr>rc_chunk_id = cm_id row, rc_document_id = cm_document_id row,
      rc_filename = rc_filename p, rc_content = cm_content row,
      rc_page_number = cm_page_number row, rc_score = rt_times_09 r (rc_score p)\<rparr>"




text \<open>
  The text that \<^verbatim>\<open>extract_document\<close> rebuilds from the stored chunks of a document, and
  the \<^verbatim>\<open>IngestionError\<close> that the two handlers of the pipeline make of an exception.
\<close>

definition document_text :: "('v, 'd) store \<Rightarrow> uuid \<Rightarrow> pystr" where
  "document_text s document_id =
     py_join [10, 10]
       (map cm_content
          (sort_key cm_chunk_index
             (filter (\<lambda>c. cm_document_id c = document_id) (st_chunks s))))"

definition ingestion_error :: "exn \<Rightarrow> exn" where
  "ingestion_error e =
     raise_from IngestionError
       (if exn_class e = PDFParserError then ''Failed to parse PDF: ''
        else ''Ingestion failed: '') e"

section \<open>Example inputs\<close>

text \<open>
  Three pages, the second one blank, chunk size 5 and overlap 2: the first page gives
  five chunks (two sentences, then a word of nine letters that is split by force), the
  third page gives the sixth, and the indices run from 0 to 5.
\<close>

definition three_pages :: parsed_document where
  "three_pages =
     \<lparr>pd_filename = py ''three.pdf'',
      pd_pages = [\<lparr>pp_number = 1, pp_text = py ''Ab. Cd. Efghijklm''\<rparr>,
                  \<lparr>pp_number = 2, pp_text = py ''  ''\<rparr>,
                  \<lparr>pp_number = 3, pp_text = py ''Xy''\<rparr>],
      pd_page_count = 3\<rparr>"

text \<open>A page of two one-letter paragraphs, and a page of four.\<close>

definition two_paragraphs :: parsed_document where
  "two_paragraphs =
     \<lparr>pd_filename = py ''two.pdf'',
      pd_pages = [\<lparr>pp_number = 1, pp_text = py ''A'' @ [10, 10] @ py ''B''\<rparr>],
      pd_page_count = 1\<rparr>"

definition four_paragraphs :: parsed_document where
  "four_paragraphs =
     \<lparr>pd_filename = py ''four.pdf'',
      pd_pages = [\<lparr>pp_number = 1,
                   pp_text = py ''A'' @ [10, 10] @ py ''B'' @ [10, 10] @ py ''C'' @ [10, 10] @ py ''D''\<rparr>],
      pd_page_count = 1\<rparr>"

text \<open>
  A service that answers in reverse order, and two texts: the vector of a text is its
  length here.
\<close>

definition reversing_service :: "nat embeddings_create" where
  "reversing_service batch = Inr (rev (zip (map int [0..<length batch]) (map length batch)))"

text \<open>
  One document (id 1) of three chunks (ids 10, 11, 12) on pages 1, 1 and 2. The search
  finds the middle chunk, with the score given.
\<close>

definition example_rows :: "nat chunk_model list" where
  "example_rows =
     [\<lparr>cm_id = 10, cm_document_id = 1, cm_content = py ''first'', cm_page_number = Some 1,
       cm_chunk_index = 0, cm_token_count = 1, cm_embedding = 0\<rparr>,
      \<lparr>cm_id = 11, cm_document_id = 1, cm_content = py ''second'', cm_page_number = Some 1,
       cm_chunk_index = 1, cm_token_count = 1, cm_embedding = 0\<rparr>,
      \<lparr>cm_id = 12, cm_document_id = 1, cm_content = py ''third'', cm_page_number = Some 2,
       cm_chunk_index = 2, cm_token_count = 1, cm_embedding = 0\<rparr>]"

definition example_retriever :: "real \<Rightarrow> (nat, real) retriever" where
  "example_retriever score =
     \<lparr>rt_create = (\<lambda>batch. Inr [(0, 0)]),
      rt_search_similar = (\<lambda>v k p d. [(example_rows ! 1, score)]),
      rt_get_by_id = (\<lambda>d. if d = 1 then
                          Some \<lparr>doc_filename = py ''a.pdf'', doc_document_type = MIETVERTRAG,
                                doc_status = COMPLETED, doc_page_count = Some 2,
                                doc_project_id = None\<rparr>
                        else None),
      rt_get_by_document = (\<lambda>d. if d = 1 then example_rows else []),
      rt_default_top_k = 5,
      rt_times_09 = (\<lambda>score. score * (9 / 10))\<rparr>"



definition example_chat :: chat_create where
  "example_chat system_prompt user_prompt max_tokens temperature = Inr (py '' generated '')"

definition example_request :: query_request where
  "example_request =
     \<lparr>rq_question = py ''rent?'', rq_project_id = None, rq_document_ids = None, rq_top_k = 5\<rparr>"

text \<open>
  A pipeline whose classifier call times out, whose extractor gets an answer that is not
  JSON and whose other collaborators succeed; and a store with one completed rental
  contract (id 7) of two chunks.
\<close>

definition example_pipeline :: "(nat, nat) pipeline" where
  "example_pipeline =
     \<lparr>pl_parse = (\<lambda>file_path. Inr three_pages),
      pl_parse_bytes = (\<lambda>file_content filename. Inr three_pages),
      pl_label = (\<lambda>sample. Inl (Exn OtherException ''timeout'' None)),
      pl_chunk_document = (\<lambda>d. Inr []),
      pl_create = reversing_service,
      pl_extract_core = (\<lambda>text t. Inl (Exn OtherException ''no JSON'' None)),
      pl_create_many_error = None,
      pl_rollback_message = (\<lambda>e. ''rolled back: '' @ message e),
      pl_uuid4 = (\<lambda>n. 100 + n)\<rparr>"

definition empty_store :: "(nat, nat) store" where
  "empty_store =
     \<lparr>st_documents = Map.empty, st_chunks = [], st_extracted = Map.empty, st_uuid_count = 0\<rparr>"

definition contract_store :: "(nat, nat) store" where
  "contract_store =
     \<lparr>st_documents = [7 \<mapsto> \<lparr>doc_filename = py ''c.pdf'', doc_document_type = MIETVERTRAG,
                              doc_status = COMPLETED, doc_page_count = Some 1,
                              doc_project_id = None\<rparr>],
      st_chunks = [\<lparr>cm_id = 71, cm_document_id = 7, cm_content = py ''b'',
                    cm_page_number = Some 1, cm_chunk_index = 1, cm_token_count = 1,
                    cm_embedding = 0\<rparr>,
                   \<lparr>cm_id = 70, cm_document_id = 7, cm_content = py ''a'',
                    cm_page_number = Some 1, cm_chunk_index = 0, cm_token_count = 1,
                    cm_embedding = 0\<rparr>],
      st_extracted = Map.empty, st_uuid_count = 3\<rparr>"

text \<open>
  Three pipelines for a document whose type is given. In the first the chunker raises a
  \<^verbatim>\<open>ValueError\<close>. In the second the chunker returns one chunk and the embedding service
  answers with no item, so that \<^verbatim>\<open>zip(..., strict=True)\<close> raises a \<^verbatim>\<open>ValueError\<close> with the same
  message. In the third the chunker returns one chunk, the embedding succeeds, and the
  flush of \<^verbatim>\<open>create_many\<close> raises.
\<close>

definition zip_error :: exn where
  "zip_error = Exn OtherException ''zip() argument 2 is shorter than argument 1'' None"

definition out_of_memory :: exn where
  "out_of_memory = Exn OtherException ''out of memory'' None"

definition one_chunk :: text_chunk where
  "one_chunk = \<lparr>content = py ''Xy'', page_number = Some 3, chunk_index = 0, token_count = 2\<rparr>"

definition chunker_fails :: "(nat, nat) pipeline" where
  "chunker_fails = example_pipeline\<lparr>pl_chunk_document := (\<lambda>d. Inl zip_error)\<rparr>"

definition embedding_fails :: "(nat, nat) pipeline" where
  "embedding_fails =
     example_pipeline\<lparr>pl_chunk_document := (\<lambda>d. Inr [one_chunk]),
                      pl_create := (\<lambda>batch. Inr [])\<rparr>"

definition persistence_fails :: "(nat, nat) pipeline" where
  "persistence_fails =
     example_pipeline\<lparr>pl_chunk_document := (\<lambda>d. Inr [one_chunk]),
                      pl_create_many_error := Some out_of_memory\<rparr>"

section \<open>Properties of the chunker\<close>

subsection \<open>The forced split\<close>

lemma force_split_loop_step:
  assumes "i < int (length toks)"
  shows "force_split_loop ck toks page i idx acc =
     force_split_loop ck toks page (next_start ck (length toks) i) (idx + 1)
       (acc @ [\<lparr>content = decode ck (py_slice toks i (window_end ck (length toks) i)),
                page_number = page, chunk_index = idx,
                token_count = length (py_slice toks i (window_end ck (length toks) i))\<rparr>])"
  using assms by (subst force_split_loop.simps) (simp add: Let_def)

lemma force_split_loop_done:
  "\<not> i < int (length toks) \<Longrightarrow> force_split_loop ck toks page i idx acc = Some acc"
  by (subst force_split_loop.simps) simp

lemma next_start_inner:
  "i + chunk_size ck < int n \<Longrightarrow> next_start ck n i = i + (chunk_size ck - chunk_overlap ck)"
  by (simp add: next_start_def window_end_def Let_def)

lemma next_start_last:
  "\<not> i + chunk_size ck < int n \<Longrightarrow> next_start ck n i = int n"
  by (simp add: next_start_def window_end_def Let_def)

lemma force_split_loop_indices:
  assumes "force_split_loop ck toks page i idx acc = Some r"
  shows "\<forall>s. idx = s + length acc \<and> map chunk_index acc = [s..<idx] \<longrightarrow>
       map chunk_index r = [s..<s + length r]"
proof (rule force_split_loop.raw_induct[where P = "\<lambda>ck toks page i idx acc r.
         \<forall>s. idx = s + length acc \<and> map chunk_index acc = [s..<idx] \<longrightarrow>
       map chunk_index r = [s..<s + length r]", OF _ assms])
  fix f :: "'a chunker \<Rightarrow> 'a list \<Rightarrow> int option \<Rightarrow> int \<Rightarrow> nat \<Rightarrow> text_chunk list \<Rightarrow> text_chunk list option"
  fix ck toks page i idx acc r
  assume IH: "\<And>ck toks page i idx acc r. f ck toks page i idx acc = Some r \<Longrightarrow>
         \<forall>s. idx = s + length acc \<and> map chunk_index acc = [s..<idx] \<longrightarrow>
       map chunk_index r = [s..<s + length r]"
  assume body: "(if i < int (length toks)
      then let chunk_tokens = py_slice toks i (window_end ck (length toks) i);
               chunk_text = decode ck chunk_tokens;
               chunks' =
                 acc @
                 [\<lparr>content = chunk_text, page_number = page,
                     chunk_index = idx, token_count = length chunk_tokens\<rparr>]
           in f ck toks page (next_start ck (length toks) i) (idx + 1) chunks'
      else Some acc) = Some r"
  show "\<forall>s. idx = s + length acc \<and> map chunk_index acc = [s..<idx] \<longrightarrow>
       map chunk_index r = [s..<s + length r]"
  proof (intro allI impI)
    fix s assume inv: "idx = s + length acc \<and> map chunk_index acc = [s..<idx]"
    show "map chunk_index r = [s..<s + length r]"
    proof (cases "i < int (length toks)")
      case False
      with body inv show ?thesis by auto
    next
      case True
      with body obtain i' c where call: "f ck toks page i' (idx + 1) (acc @ [c]) = Some r"
        and c: "chunk_index c = idx"
        by (auto simp: Let_def)
      from inv c have "idx + 1 = s + length (acc @ [c]) \<and> map chunk_index (acc @ [c]) = [s..<idx + 1]"
        by simp
      with IH[OF call] show ?thesis by blast
    qed
  qed
qed

lemma force_split_loop_terminates:
  assumes "chunk_overlap ck < chunk_size ck"
  shows "\<exists>r. force_split_loop ck toks page i idx acc = Some r"
proof (induction "nat (int (length toks) - i)" arbitrary: i idx acc rule: less_induct)
  case less
  show ?case
  proof (cases "i < int (length toks)")
    case False
    then show ?thesis by (simp add: force_split_loop_done)
  next
    case True
    have "i < next_start ck (length toks) i"
      using True assms by (cases "i + chunk_size ck < int (length toks)")
        (simp_all add: next_start_inner next_start_last)
    then have "nat (int (length toks) - next_start ck (length toks) i) < nat (int (length toks) - i)"
      using True by linarith
    from less[OF this] show ?thesis
      unfolding force_split_loop_step[OF True] by blast
  qed
qed

lemma force_split_loop_diverges:
  assumes "force_split_loop ck toks page i idx acc = Some r"
  shows "\<not> (chunk_size ck \<le> chunk_overlap ck \<and> chunk_size ck < int (length toks) \<and> toks \<noteq> [] \<and> i \<le> 0)"
proof (rule force_split_loop.raw_induct[where P = "\<lambda>ck toks page i idx acc r.
         \<not> (chunk_size ck \<le> chunk_overlap ck \<and> chunk_size ck < int (length toks) \<and> toks \<noteq> [] \<and> i \<le> 0)", OF _ assms])
  fix f :: "'a chunker \<Rightarrow> 'a list \<Rightarrow> int option \<Rightarrow> int \<Rightarrow> nat \<Rightarrow> text_chunk list \<Rightarrow> text_chunk list option"
  fix ck toks page i idx acc r
  assume IH: "\<And>ck toks page i idx acc r. f ck toks page i idx acc = Some r \<Longrightarrow>
         \<not> (chunk_size ck \<le> chunk_overlap ck \<and> chunk_size ck < int (length toks) \<and> toks \<noteq> [] \<and> i \<le> 0)"
  assume body: "(if i < int (length toks)
      then let chunk_tokens = py_slice toks i (window_end ck (length toks) i);
               chunk_text = decode ck chunk_tokens;
               chunks' =
                 acc @
                 [\<lparr>content = chunk_text, page_number = page,
                     chunk_index = idx, token_count = length chunk_tokens\<rparr>]
           in f ck toks page (next_start ck (length toks) i) (idx + 1) chunks'
      else Some acc) = Some r"
  show "\<not> (chunk_size ck \<le> chunk_overlap ck \<and> chunk_size ck < int (length toks) \<and> toks \<noteq> [] \<and> i \<le> 0)"
  proof
    assume h: "chunk_size ck \<le> chunk_overlap ck \<and> chunk_size ck < int (length toks) \<and> toks \<noteq> [] \<and> i \<le> 0"
    then have lt: "i < int (length toks)" by (cases toks) auto
    from h have e2: "i + chunk_size ck < int (length toks)" by auto
    from body lt obtain c where
      call: "f ck toks page (next_start ck (length toks) i) (idx + 1) (acc @ [c]) = Some r"
      by (simp add: Let_def)
    from IH[OF call] h show False by (simp add: next_start_inner[OF e2])
  qed
qed

subsection \<open>The accumulation loops\<close>

lemma flush_reset_inv: "idx_inv s st \<Longrightarrow> idx_inv s (flush_reset page st)"
  by (auto simp: idx_inv_def flush_reset_def split: prod.splits)

lemma flush_overlap_inv: "idx_inv s st \<Longrightarrow> idx_inv s (flush_overlap ck page sep piece n st)"
  by (auto simp: idx_inv_def flush_overlap_def Let_def split: prod.splits)

lemma accumulate_inv: "idx_inv s st \<Longrightarrow> idx_inv s (accumulate ck sep piece st)"
  by (auto simp: idx_inv_def accumulate_def Let_def split: prod.splits)

lemma flush_last_indices:
  "idx_inv s st \<Longrightarrow> map chunk_index (flush_last ck page st) = [s..<s + length (flush_last ck page st)]"
  by (auto simp: idx_inv_def flush_last_def split: prod.splits)

lemma idx_inv_init: "idx_inv s ([], t, n, s)"
  by (simp add: idx_inv_def)

lemma idx_inv_extend:
  assumes "idx_inv s (chunks, t, n, idx)" and "map chunk_index r = [idx..<idx + length r]"
  shows "idx_inv s (chunks @ r, t, n, idx + length r)"
proof -
  from assms(1) have a: "idx = s + length chunks" and b: "map chunk_index chunks = [s..<idx]"
    by (simp_all add: idx_inv_def)
  have "[s..<idx + length r] = [s..<idx] @ [idx..<idx + length r]"
    using a by (metis le_add1 upt_add_eq_append)
  with a b assms(2) show ?thesis by (simp add: idx_inv_def)
qed

lemma force_split_by_tokens_indices:
  assumes "force_split_by_tokens ck text page start = Some r"
  shows "map chunk_index r = [start..<start + length r]"
  using force_split_loop_indices[OF assms[unfolded force_split_by_tokens_def]] by simp

lemma split_large_loop_inv:
  "split_large_loop ck page ss st = Some st' \<Longrightarrow> idx_inv s st \<Longrightarrow> idx_inv s st'"
proof (induction ss arbitrary: st)
  case Nil
  then show ?case by simp
next
  case (Cons sentence rest)
  show ?case
  proof (cases "int (count_tokens ck sentence) > chunk_size ck")
    case True
    obtain chunks t n idx where fr: "flush_reset page st = (chunks, t, n, idx)"
      by (cases "flush_reset page st") auto
    from Cons.prems(1) True fr obtain tc where
      fs: "force_split_by_tokens ck sentence page idx = Some tc"
      and rec: "split_large_loop ck page rest (chunks @ tc, t, n, idx + length tc) = Some st'"
      by (auto simp: Let_def split: option.splits)
    from flush_reset_inv[OF Cons.prems(2), of page] fr have "idx_inv s (chunks, t, n, idx)" by simp
    from idx_inv_extend[OF this force_split_by_tokens_indices[OF fs]]
    show ?thesis using Cons.IH[OF rec] by blast
  next
    case False
    show ?thesis
    proof (cases "int (fst (snd (snd st))) + int (count_tokens ck sentence) > chunk_size ck")
      case True
      with False Cons.prems(1) have
        "split_large_loop ck page rest (flush_overlap ck page [32] sentence (count_tokens ck sentence) st) = Some st'"
        by (simp add: Let_def)
      from Cons.IH[OF this flush_overlap_inv[OF Cons.prems(2)]] show ?thesis .
    next
      case F2: False
      with False Cons.prems(1) have
        "split_large_loop ck page rest (accumulate ck [32] sentence st) = Some st'"
        by (simp add: Let_def)
      from Cons.IH[OF this accumulate_inv[OF Cons.prems(2)]] show ?thesis .
    qed
  qed
qed

lemma split_large_text_indices:
  assumes "split_large_text ck text page start = Some r"
  shows "map chunk_index r = [start..<start + length r]"
proof -
  from assms obtain st where
    l: "split_large_loop ck page (split_into_sentences text) ([], [], 0, start) = Some st"
    and r: "r = flush_last ck page st"
    by (auto simp: split_large_text_def)
  from split_large_loop_inv[OF l idx_inv_init] show ?thesis
    unfolding r by (rule flush_last_indices)
qed

lemma chunk_page_loop_inv:
  "chunk_page_loop ck page ps st = Some st' \<Longrightarrow> idx_inv s st \<Longrightarrow> idx_inv s st'"
proof (induction ps arbitrary: st)
  case Nil
  then show ?case by simp
next
  case (Cons para rest)
  show ?case
  proof (cases "int (count_tokens ck para) > chunk_size ck")
    case True
    obtain chunks t n idx where fr: "flush_reset page st = (chunks, t, n, idx)"
      by (cases "flush_reset page st") auto
    from Cons.prems(1) True fr obtain pc where
      fs: "split_large_text ck para page idx = Some pc"
      and rec: "chunk_page_loop ck page rest (chunks @ pc, t, n, idx + length pc) = Some st'"
      by (auto simp: Let_def split: option.splits)
    from flush_reset_inv[OF Cons.prems(2), of page] fr have "idx_inv s (chunks, t, n, idx)" by simp
    from idx_inv_extend[OF this split_large_text_indices[OF fs]]
    show ?thesis using Cons.IH[OF rec] by blast
  next
    case False
    show ?thesis
    proof (cases "int (fst (snd (snd st))) + int (count_tokens ck para) > chunk_size ck")
      case True
      with False Cons.prems(1) have
        "chunk_page_loop ck page rest (flush_overlap ck page [10, 10] para (count_tokens ck para) st) = Some st'"
        by (simp add: Let_def)
      from Cons.IH[OF this flush_overlap_inv[OF Cons.prems(2)]] show ?thesis .
    next
      case F2: False
      with False Cons.prems(1) have
        "chunk_page_loop ck page rest (accumulate ck [10, 10] para st) = Some st'"
        by (simp add: Let_def)
      from Cons.IH[OF this accumulate_inv[OF Cons.prems(2)]] show ?thesis .
    qed
  qed
qed

lemma chunk_page_indices:
  assumes "chunk_page ck page start = Some r"
  shows "map chunk_index r = [start..<start + length r]"
proof (cases "py_strip (pp_text page) = []")
  case True
  with assms show ?thesis by (simp add: chunk_page_def)
next
  case False
  with assms obtain st where
    l: "chunk_page_loop ck (Some (pp_number page)) (split_into_paragraphs (pp_text page)) ([], [], 0, start) = Some st"
    and r: "r = flush_last ck (Some (pp_number page)) st"
    by (auto simp: chunk_page_def)
  from chunk_page_loop_inv[OF l idx_inv_init] show ?thesis
    unfolding r by (rule flush_last_indices)
qed

lemma chunk_document_loop_indices:
  "chunk_document_loop ck pages chunks idx = Some r \<Longrightarrow>
   idx = length chunks \<Longrightarrow> map chunk_index chunks = [0..<idx] \<Longrightarrow>
   map chunk_index r = [0..<length r]"
proof (induction pages arbitrary: chunks idx)
  case Nil
  then show ?case by simp
next
  case (Cons page pages)
  from Cons.prems(1) obtain pc where
    p: "chunk_page ck page idx = Some pc"
    and rec: "chunk_document_loop ck pages (chunks @ pc) (idx + length pc) = Some r"
    by (auto split: option.splits)
  have "[0..<idx + length pc] = [0..<idx] @ [idx..<idx + length pc]"
    by (metis le_add1 upt_add_eq_append zero_le)
  with chunk_page_indices[OF p] Cons.prems(3)
  have "map chunk_index (chunks @ pc) = [0..<idx + length pc]" by simp
  from Cons.IH[OF rec _ this] Cons.prems(2) show ?case by simp
qed

lemma split_large_loop_total:
  assumes "chunk_overlap ck < chunk_size ck"
  shows "\<exists>st'. split_large_loop ck page ss st = Some st'"
proof (induction ss arbitrary: st)
  case Nil
  show ?case by (simp only: split_large_loop.simps) blast
next
  case (Cons sentence rest)
  obtain chunks t n idx where fr: "flush_reset page st = (chunks, t, n, idx)"
    by (cases "flush_reset page st") auto
  from force_split_loop_terminates[OF assms] obtain tc where
    "force_split_by_tokens ck sentence page idx = Some tc"
    unfolding force_split_by_tokens_def by blast
  with fr Cons.IH show ?case by (simp add: Let_def)
qed

lemma split_large_text_total:
  assumes "chunk_overlap ck < chunk_size ck"
  shows "\<exists>r. split_large_text ck text page start = Some r"
  using split_large_loop_total[OF assms] by (simp add: split_large_text_def)

lemma chunk_page_loop_total:
  assumes "chunk_overlap ck < chunk_size ck"
  shows "\<exists>st'. chunk_page_loop ck page ps st = Some st'"
proof (induction ps arbitrary: st)
  case Nil
  show ?case by (simp only: chunk_page_loop.simps) blast
next
  case (Cons para rest)
  obtain chunks t n idx where fr: "flush_reset page st = (chunks, t, n, idx)"
    by (cases "flush_reset page st") auto
  from split_large_text_total[OF assms] obtain pc where
    "split_large_text ck para page idx = Some pc" by blast
  with fr Cons.IH show ?case by (simp add: Let_def)
qed

lemma chunk_page_total:
  assumes "chunk_overlap ck < chunk_size ck"
  shows "\<exists>r. chunk_page ck page start = Some r"
  using chunk_page_loop_total[OF assms] by (simp add: chunk_page_def)

lemma chunk_document_loop_total:
  assumes "chunk_overlap ck < chunk_size ck"
  shows "\<exists>r. chunk_document_loop ck pages chunks idx = Some r"
proof (induction pages arbitrary: chunks idx)
  case Nil
  then show ?case by simp
next
  case (Cons page pages)
  from chunk_page_total[OF assms] obtain pc where "chunk_page ck page idx = Some pc" by blast
  with Cons.IH show ?case by simp
qed

subsection \<open>Chunk indices\<close>

text \<open>
  Claim C3. For every chunker configuration and every parsed document, the list that
  \<open>chunk_document\<close> returns carries the chunk indices 0, 1, 2, ... in this order, without
  a gap and without a restart at a page boundary; and the call does return whenever the
  overlap is smaller than the chunk size.
\<close>

theorem chunk_index_contiguous:
  "(chunk_overlap ck < chunk_size ck \<longrightarrow> (\<exists>cs. chunk_document ck document = Some cs)) \<and>
   (\<forall>cs. chunk_document ck document = Some cs \<longrightarrow> map chunk_index cs = [0..<length cs])"
proof (intro conjI impI allI)
  assume "chunk_overlap ck < chunk_size ck"
  from chunk_document_loop_total[OF this] show "\<exists>cs. chunk_document ck document = Some cs"
    by (simp add: chunk_document_def)
next
  fix cs assume "chunk_document ck document = Some cs"
  then show "map chunk_index cs = [0..<length cs]"
    unfolding chunk_document_def by (rule chunk_document_loop_indices) simp_all
qed

text \<open>The definitions that a run of the chunker on a concrete page unfolds.\<close>

lemmas chunker_eval =
  chunk_document_def chunk_page_def split_into_paragraphs_def split_into_sentences_def
  split_large_text_def force_split_by_tokens_def force_split_loop.simps
  next_start_def window_end_def py_slice_def py_slice_from_def py_index_def
  flush_reset_def flush_overlap_def accumulate_def flush_last_def get_overlap_text_def
  count_tokens_def toy_chunker_def py_def py_strip_def is_space_def is_end_punct_def
  is_upper_class_def Let_def

lemma three_pages_chunks:
  "chunk_document (toy_chunker 5 2) three_pages =
     Some [\<lparr>content = py ''Ab.'', page_number = Some 1, chunk_index = 0, token_count = 3\<rparr>,
           \<lparr>content = py ''b. Cd.'', page_number = Some 1, chunk_index = 1, token_count = 6\<rparr>,
           \<lparr>content = py ''Efghi'', page_number = Some 1, chunk_index = 2, token_count = 5\<rparr>,
           \<lparr>content = py ''hijkl'', page_number = Some 1, chunk_index = 3, token_count = 5\<rparr>,
           \<lparr>content = py ''klm'', page_number = Some 1, chunk_index = 4, token_count = 3\<rparr>,
           \<lparr>content = py ''Xy'', page_number = Some 3, chunk_index = 5, token_count = 2\<rparr>]"
  by (simp add: three_pages_def chunker_eval)

theorem chunk_index_contiguous_witness:
  "chunk_overlap (toy_chunker 5 2) < chunk_size (toy_chunker 5 2) \<and>
   (\<exists>cs. chunk_document (toy_chunker 5 2) three_pages = Some cs \<and> length cs = 6 \<and>
         map chunk_index cs = [0..<length cs])"
  using chunk_index_contiguous[of "toy_chunker 5 2" three_pages]
  by (simp add: three_pages_chunks) (simp add: toy_chunker_def)

subsection \<open>Token counts\<close>

text \<open>
  Claim C2. With chunk size 2 the page \<^verbatim>\<open>"A\n\nB"\<close> has two paragraphs of one token each.
  Neither exceeds the chunk size, so nothing is split by force; the second is appended
  to the first because 1 + 1 does not exceed 2, and the joined text, with its separator,
  is stored as one chunk of 3 tokens.
\<close>

theorem joined_paragraphs_exceed_chunk_size:
  "chunk_document (toy_chunker 2 1) two_paragraphs =
     Some [\<lparr>content = py ''A'' @ [10, 10] @ py ''B'', page_number = Some 1,
            chunk_index = 0, token_count = 3\<rparr>] \<and>
   split_into_paragraphs (py ''A'' @ [10, 10] @ py ''B'') = [py ''A'', py ''B''] \<and>
   count_tokens (toy_chunker 2 1) (py ''A'') = 1 \<and>
   count_tokens (toy_chunker 2 1) (py ''B'') = 1 \<and>
   chunk_size (toy_chunker 2 1) = 2"
  by (simp add: two_paragraphs_def chunker_eval)

text \<open>
  Claim C4. With chunk size 3 and overlap 2 the page \<^verbatim>\<open>"A\n\nB\n\nC\n\nD"\<close> gives three
  chunks. The second one is flushed with the running count of the buffer
  \<^verbatim>\<open>"\n\nB\n\nC"\<close>, which starts with the overlap tail and has 4 tokens, while its stored
  content is the stripped text \<^verbatim>\<open>"B\n\nC"\<close> of 3 tokens.
\<close>

theorem flushed_count_differs_from_content:
  "chunk_document (toy_chunker 3 2) four_paragraphs =
     Some [\<lparr>content = py ''A'' @ [10, 10] @ py ''B'', page_number = Some 1,
            chunk_index = 0, token_count = 3\<rparr>,
           \<lparr>content = py ''B'' @ [10, 10] @ py ''C'', page_number = Some 1,
            chunk_index = 1, token_count = 4\<rparr>,
           \<lparr>content = py ''C'' @ [10, 10] @ py ''D'', page_number = Some 1,
            chunk_index = 2, token_count = 3\<rparr>] \<and>
   count_tokens (toy_chunker 3 2) (py ''B'' @ [10, 10] @ py ''C'') = 3"
  by (simp add: four_paragraphs_def chunker_eval)

subsection \<open>Termination of the forced split\<close>

text \<open>
  Claim C10, as amended. The forced split returns for every text when the overlap is
  smaller than the chunk size. An iteration whose window ends before the last token
  moves the start by the chunk size minus the overlap; the iteration whose window reaches
  the end of the tokens moves the start to the end, which stops the loop. When the
  overlap is not smaller than the chunk size and the text encodes to at least one token
  and to more tokens than the chunk size, the start never moves forward and the call
  never returns.
\<close>

theorem force_split_termination:
  "(chunk_overlap ck < chunk_size ck \<longrightarrow>
      (\<exists>r. force_split_by_tokens ck text page start = Some r)) \<and>
   (i + chunk_size ck < int n \<longrightarrow>
      next_start ck n i = i + (chunk_size ck - chunk_overlap ck)) \<and>
   (\<not> i + chunk_size ck < int n \<longrightarrow> next_start ck n i = int n) \<and>
   (chunk_size ck \<le> chunk_overlap ck \<and> chunk_size ck < int (length (encode ck text)) \<and>
    encode ck text \<noteq> [] \<longrightarrow>
      force_split_by_tokens ck text page start = None)"
proof (intro conjI impI)
  assume "chunk_overlap ck < chunk_size ck"
  from force_split_loop_terminates[OF this]
  show "\<exists>r. force_split_by_tokens ck text page start = Some r"
    by (simp add: force_split_by_tokens_def)
next
  assume "i + chunk_size ck < int n"
  then show "next_start ck n i = i + (chunk_size ck - chunk_overlap ck)"
    by (rule next_start_inner)
next
  assume "\<not> i + chunk_size ck < int n"
  then show "next_start ck n i = int n" by (rule next_start_last)
next
  assume h: "chunk_size ck \<le> chunk_overlap ck \<and> chunk_size ck < int (length (encode ck text)) \<and>
    encode ck text \<noteq> []"
  show "force_split_by_tokens ck text page start = None"
  proof (cases "force_split_by_tokens ck text page start")
    case None
    then show ?thesis .
  next
    case (Some r)
    from force_split_loop_diverges[OF Some[unfolded force_split_by_tokens_def]] h
    show ?thesis by simp
  qed
qed

theorem force_split_termination_witness:
  "chunk_overlap (toy_chunker 2 1) < chunk_size (toy_chunker 2 1) \<and>
   (\<exists>r. force_split_by_tokens (toy_chunker 2 1) (py ''abc'') None 0 = Some r) \<and>
   0 + chunk_size (toy_chunker 2 1) < int 3 \<and>
   next_start (toy_chunker 2 1) 3 0 = 1 \<and>
   \<not> 1 + chunk_size (toy_chunker 2 1) < int 3 \<and>
   next_start (toy_chunker 2 1) 3 1 = 3 \<and>
   chunk_size (toy_chunker 2 2) \<le> chunk_overlap (toy_chunker 2 2) \<and>
   chunk_size (toy_chunker 2 2) < int (length (encode (toy_chunker 2 2) (py ''abc''))) \<and>
   encode (toy_chunker 2 2) (py ''abc'') \<noteq> [] \<and>
   force_split_by_tokens (toy_chunker 2 2) (py ''abc'') None 0 = None"
  using force_split_termination[of "toy_chunker 2 1" "py ''abc''" None 0 0 3]
    force_split_termination[of "toy_chunker 2 1" "py ''abc''" None 0 1 3]
    force_split_termination[of "toy_chunker 2 2" "py ''abc''" None 0 0 3]
  by (simp add: toy_chunker_def py_def)

text \<open>
  The claim as first stated fails twice. With chunk size 4, overlap 1 and five tokens the
  second iteration starts at 3 and moves the start to 5, not to 3 + (4 - 1) = 6. And with
  chunk size -1 and overlap 5 the empty text encodes to 0 tokens, more than the chunk
  size, yet the call returns at once.
\<close>

theorem force_split_counterexample:
  "chunk_overlap (toy_chunker 4 1) < chunk_size (toy_chunker 4 1) \<and>
   force_split_by_tokens (toy_chunker 4 1) (py ''abcde'') None 0 =
     Some [\<lparr>content = py ''abcd'', page_number = None, chunk_index = 0, token_count = 4\<rparr>,
           \<lparr>content = py ''de'', page_number = None, chunk_index = 1, token_count = 2\<rparr>] \<and>
   next_start (toy_chunker 4 1) 5 0 = 3 \<and>
   next_start (toy_chunker 4 1) 5 3 = 5 \<and>
   3 + (chunk_size (toy_chunker 4 1) - chunk_overlap (toy_chunker 4 1)) = 6 \<and>
   chunk_size (toy_chunker (- 1) 5) \<le> chunk_overlap (toy_chunker (- 1) 5) \<and>
   chunk_size (toy_chunker (- 1) 5) < int (length (encode (toy_chunker (- 1) 5) [])) \<and>
   force_split_by_tokens (toy_chunker (- 1) 5) [] None 0 = Some []"
  by (simp add: chunker_eval)

section \<open>Properties of the embedder\<close>

subsection \<open>Batches\<close>

lemma concat_batches_take:
  "concat (map (\<lambda>k. take bs (drop (k * bs) xs)) [0..<m]) = take (m * bs) xs"
proof (induction m)
  case 0
  then show ?case by simp
next
  case (Suc m)
  have "take (m * bs) xs @ take bs (drop (m * bs) xs) = take (m * bs + bs) xs"
    by (simp add: take_add)
  with Suc show ?case by (simp add: add.commute)
qed

lemma ceil_div_covers:
  assumes "0 < bs"
  shows "n \<le> ((n + bs - 1) div bs) * (bs::nat)"
proof -
  define q where "q = (n + bs - 1) div bs"
  define r where "r = (n + bs - 1) mod bs"
  have 1: "q * bs + r = n + bs - 1" unfolding q_def r_def by (rule div_mult_mod_eq)
  have 2: "r < bs" unfolding r_def using assms by (rule mod_less_divisor)
  define p where "p = q * bs"
  from 1 2 assms have "n \<le> p" unfolding p_def[symmetric] by linarith
  then show ?thesis by (simp add: p_def q_def)
qed

lemma range_step_in_bounds:
  assumes "0 < bs" and "i \<in> set (py_range_step n bs)"
  shows "i < n"
proof -
  from assms(2) obtain k where k: "k < (n + bs - 1) div bs" and i: "i = k * bs"
    by (auto simp: py_range_step_def)
  define q where "q = (n + bs - 1) div bs"
  have "q * bs \<le> n + bs - 1" unfolding q_def by (rule div_times_less_eq_dividend)
  moreover from k have "Suc k \<le> q" by (simp add: q_def)
  then have "Suc k * bs \<le> q * bs" by (rule mult_le_mono1)
  then have "k * bs + bs \<le> q * bs" by simp
  ultimately have "k * bs + bs \<le> n + bs - 1" by (rule order_trans[rotated])
  then show ?thesis using i assms(1) by linarith
qed

lemma concat_batches:
  assumes "0 < bs"
  shows "concat (map (\<lambda>i. take bs (drop i xs)) (py_range_step (length xs) bs)) = xs"
proof -
  have "concat (map (\<lambda>i. take bs (drop i xs)) (py_range_step (length xs) bs)) =
        concat (map (\<lambda>k. take bs (drop (k * bs) xs)) [0..<(length xs + bs - 1) div bs])"
    by (simp add: py_range_step_def comp_def)
  also have "\<dots> = take (((length xs + bs - 1) div bs) * bs) xs" by (rule concat_batches_take)
  also have "\<dots> = xs" using ceil_div_covers[OF assms, of "length xs"] by simp
  finally show ?thesis .
qed

subsection \<open>Re-sorting a permuted response\<close>

lemma sort_permuted_response:
  assumes "mset data = mset (zip (map int [0..<length batch]) (map E batch))"
  shows "map snd (sort_key fst data) = map E batch"
proof -
  let ?ys = "zip (map int [0..<length batch]) (map E batch)"
  have keys: "map fst ?ys = map int [0..<length batch]" by simp
  have "distinct (map fst ?ys)" unfolding keys by (simp add: distinct_map)
  then have "inj_on fst (set ?ys)" by (rule distinct_map[THEN iffD1, THEN conjunct2])
  moreover have "set data = set ?ys" using assms by (rule mset_eq_setD)
  ultimately have inj: "inj_on fst (set data)" by simp
  have "sorted (map fst ?ys)" unfolding keys by (simp add: sorted_map) 
  from sort_key_inj_key_eq[OF assms inj this] show ?thesis by simp
qed

lemma embed_batches_aligned:
  assumes bs: "0 < bs"
    and service: "\<forall>batch. batch \<noteq> [] \<and> length batch \<le> bs \<longrightarrow>
       (\<exists>data. create batch = Inr data \<and>
               mset data = mset (zip (map int [0..<length batch]) (map E batch)))"
  shows "\<forall>i \<in> set starts. i < length texts \<Longrightarrow>
     embed_batches create bs texts starts acc =
       Inr (acc @ map E (concat (map (\<lambda>i. take bs (drop i texts)) starts)))"
proof (induction starts arbitrary: acc)
  case Nil
  then show ?case by simp
next
  case (Cons i starts)
  let ?batch = "take bs (drop i texts)"
  from Cons.prems bs have "?batch \<noteq> []" by simp
  moreover have "length ?batch \<le> bs" by simp
  ultimately obtain data where d: "create ?batch = Inr data"
    and m: "mset data = mset (zip (map int [0..<length ?batch]) (map E ?batch))"
    using service by blast
  from Cons.prems have rest: "\<forall>i \<in> set starts. i < length texts" by simp
  show ?case
    using d sort_permuted_response[OF m] Cons.IH[OF rest] by (simp add: Let_def)
qed

text \<open>
  Claim C5. \<open>embed_texts\<close> returns the empty list for the empty input. When the service
  answers every batch with one item per text, each carrying the position of its text in
  the batch and that text's vector \<open>E t\<close>, in any order, \<open>embed_texts\<close> returns the vectors
  of the texts in the order of the texts: one per text, aligned by position.
\<close>

theorem embed_texts_aligned:
  "embed_texts create [] = Inr [] \<and>
   ((\<forall>batch. batch \<noteq> [] \<and> length batch \<le> MAX_BATCH_SIZE \<longrightarrow>
       (\<exists>data. create batch = Inr data \<and>
               mset data = mset (zip (map int [0..<length batch]) (map E batch)))) \<longrightarrow>
    embed_texts create texts = Inr (map E texts) \<and>
    (\<forall>vs. embed_texts create texts = Inr vs \<longrightarrow> length vs = length texts))"
proof (intro conjI impI)
  show "embed_texts create [] = Inr []" by (simp add: embed_texts_def embed_texts_with_def)
next
  assume service: "\<forall>batch. batch \<noteq> [] \<and> length batch \<le> MAX_BATCH_SIZE \<longrightarrow>
       (\<exists>data. create batch = Inr data \<and>
               mset data = mset (zip (map int [0..<length batch]) (map E batch)))"
  have pos: "0 < MAX_BATCH_SIZE" by (simp add: MAX_BATCH_SIZE_def)
  have "\<forall>i \<in> set (py_range_step (length texts) MAX_BATCH_SIZE). i < length texts"
    using range_step_in_bounds[OF pos] by blast
  from embed_batches_aligned[OF pos service this, of "[]"] concat_batches[OF pos, of texts]
  have "embed_batches create MAX_BATCH_SIZE texts (py_range_step (length texts) MAX_BATCH_SIZE) [] =
        Inr (map E texts)" by simp
  then show r: "embed_texts create texts = Inr (map E texts)"
    by (simp add: embed_texts_def embed_texts_with_def)
  show "\<forall>vs. embed_texts create texts = Inr vs \<longrightarrow> length vs = length texts"
    using r by auto
qed

theorem embed_texts_aligned_witness:
  "reversing_service [py ''ab'', py ''c''] = Inr [(1, 1), (0, 2)] \<and>
   embed_texts reversing_service [py ''ab'', py ''c''] = Inr [2, 1]"
proof -
  have "\<forall>batch. batch \<noteq> [] \<and> length batch \<le> MAX_BATCH_SIZE \<longrightarrow>
       (\<exists>data. reversing_service batch = Inr data \<and>
               mset data = mset (zip (map int [0..<length batch]) (map length batch)))"
    by (simp add: reversing_service_def)
  with embed_texts_aligned[of reversing_service length "[py ''ab'', py ''c'']"]
  show ?thesis by (simp add: reversing_service_def py_def)
qed

section \<open>Properties of the answer engine\<close>

subsection \<open>The source list\<close>

lemma sources_loop_distinct:
  "seen = set (map source_key sources) \<Longrightarrow> distinct (map source_key sources) \<Longrightarrow>
   distinct (map source_key (sources_loop chunks seen sources))"
proof (induction chunks arbitrary: seen sources)
  case Nil
  then show ?case by simp
next
  case (Cons chunk chunks)
  show ?case
  proof (cases "(rc_document_id chunk, rc_page_number chunk) \<in> seen")
    case True
    with Cons show ?thesis by simp
  next
    case False
    let ?src = "\<lparr>src_document_id = rc_document_id chunk, src_filename = rc_filename chunk,
                src_page_number = rc_page_number chunk,
                src_chunk_content = take 500 (rc_content chunk),
                src_score = rc_score chunk\<rparr>"
    have k: "source_key ?src = (rc_document_id chunk, rc_page_number chunk)"
      by (simp add: source_key_def)
    have "distinct (map source_key (sources_loop chunks
            (insert (rc_document_id chunk, rc_page_number chunk) seen) (sources @ [?src])))"
    proof (rule Cons.IH)
      show "insert (rc_document_id chunk, rc_page_number chunk) seen =
            set (map source_key (sources @ [?src]))"
        using Cons.prems(1) k by auto
      show "distinct (map source_key (sources @ [?src]))"
        using Cons.prems False k by auto
    qed
    with False show ?thesis by (simp add: Let_def)
  qed
qed

lemma sources_loop_first:
  "\<forall>s \<in> set (sources_loop chunks seen sources).
     s \<in> set sources \<or>
     (source_key s \<notin> seen \<and>
      (\<exists>c. find (\<lambda>c. chunk_key c = source_key s) chunks = Some c \<and> s = chunk_source c))"
proof (induction chunks arbitrary: seen sources)
  case Nil
  then show ?case by simp
next
  case (Cons chunk chunks)
  show ?case
  proof (cases "(rc_document_id chunk, rc_page_number chunk) \<in> seen")
    case True
    then have eq: "sources_loop (chunk # chunks) seen sources = sources_loop chunks seen sources"
      by simp
    show ?thesis unfolding eq
    proof
      fix s assume "s \<in> set (sources_loop chunks seen sources)"
      with Cons.IH[of seen sources] have
        "s \<in> set sources \<or> (source_key s \<notin> seen \<and>
           (\<exists>c. find (\<lambda>c. chunk_key c = source_key s) chunks = Some c \<and> s = chunk_source c))"
        by blast
      then show "s \<in> set sources \<or> (source_key s \<notin> seen \<and>
           (\<exists>c. find (\<lambda>c. chunk_key c = source_key s) (chunk # chunks) = Some c \<and>
                s = chunk_source c))"
        using True by (auto simp: chunk_key_def)
    qed
  next
    case False
    let ?key = "(rc_document_id chunk, rc_page_number chunk)"
    have eq: "sources_loop (chunk # chunks) seen sources =
              sources_loop chunks (insert ?key seen) (sources @ [chunk_source chunk])"
      using False by (simp add: Let_def chunk_source_def)
    show ?thesis unfolding eq
    proof
      fix s assume "s \<in> set (sources_loop chunks (insert ?key seen) (sources @ [chunk_source chunk]))"
      with Cons.IH[of "insert ?key seen" "sources @ [chunk_source chunk]"] have
        "s \<in> set (sources @ [chunk_source chunk]) \<or> (source_key s \<notin> insert ?key seen \<and>
           (\<exists>c. find (\<lambda>c. chunk_key c = source_key s) chunks = Some c \<and> s = chunk_source c))"
        by blast
      then consider "s \<in> set sources" | "s = chunk_source chunk"
        | "source_key s \<notin> insert ?key seen"
          "\<exists>c. find (\<lambda>c. chunk_key c = source_key s) chunks = Some c \<and> s = chunk_source c"
        by auto
      then show "s \<in> set sources \<or> (source_key s \<notin> seen \<and>
           (\<exists>c. find (\<lambda>c. chunk_key c = source_key s) (chunk # chunks) = Some c \<and>
                s = chunk_source c))"
      proof cases
        case 1
        then show ?thesis by simp
      next
        case 2
        then have "source_key s = ?key" by (simp add: source_key_def chunk_source_def)
        with False 2 show ?thesis by (simp add: chunk_key_def)
      next
        case 3
        then have "chunk_key chunk \<noteq> source_key s" by (auto simp: chunk_key_def)
        with 3 show ?thesis by auto
      qed
    qed
  qed
qed

lemma sources_loop_truncated:
  "\<forall>s \<in> set sources. length (src_chunk_content s) \<le> 500 \<Longrightarrow>
   \<forall>s \<in> set (sources_loop chunks seen sources). length (src_chunk_content s) \<le> 500"
proof (induction chunks arbitrary: seen sources)
  case Nil
  then show ?case by simp
next
  case (Cons chunk chunks)
  show ?case
  proof (cases "(rc_document_id chunk, rc_page_number chunk) \<in> seen")
    case True
    with Cons.IH[OF Cons.prems] show ?thesis by simp
  next
    case False
    have "\<forall>s \<in> set (sources @ [chunk_source chunk]). length (src_chunk_content s) \<le> 500"
      using Cons.prems by (simp add: chunk_source_def)
    from Cons.IH[OF this] False show ?thesis by (simp add: Let_def chunk_source_def)
  qed
qed

lemma sources_loop_keys:
  "seen = source_key ` set sources \<Longrightarrow>
   source_key ` set (sources_loop chunks seen sources) = seen \<union> chunk_key ` set chunks"
proof (induction chunks arbitrary: seen sources)
  case Nil
  then show ?case by simp
next
  case (Cons chunk chunks)
  let ?key = "(rc_document_id chunk, rc_page_number chunk)"
  have key: "chunk_key chunk = ?key" by (simp add: chunk_key_def)
  show ?case
  proof (cases "?key \<in> seen")
    case True
    then have eq: "sources_loop (chunk # chunks) seen sources = sources_loop chunks seen sources"
      by simp
    from Cons.IH[OF Cons.prems] True show ?thesis unfolding eq by (auto simp: key)
  next
    case False
    then have eq: "sources_loop (chunk # chunks) seen sources =
                   sources_loop chunks (insert ?key seen) (sources @ [chunk_source chunk])"
      by (simp add: Let_def chunk_source_def)
    have "insert ?key seen = source_key ` set (sources @ [chunk_source chunk])"
      using Cons.prems by (simp add: source_key_def chunk_source_def)
    from Cons.IH[OF this] show ?thesis unfolding eq by (auto simp: key)
  qed
qed

lemma build_sources_keys: "source_key ` set (build_sources chunks) = chunk_key ` set chunks"
  using sources_loop_keys[of "{}" "[]" chunks] by (simp add: build_sources_def)

lemma build_sources_distinct: "distinct (map source_key (build_sources chunks))"
proof -
  have "distinct (map source_key (sources_loop chunks {} []))"
    by (rule sources_loop_distinct) simp_all
  moreover have "mset (map source_key (build_sources chunks)) =
                 mset (map source_key (sources_loop chunks {} []))"
    by (simp add: build_sources_def)
  ultimately show ?thesis by (metis mset_eq_imp_distinct_iff)
qed

lemma build_sources_truncated:
  "\<forall>s \<in> set (build_sources chunks). length (src_chunk_content s) \<le> 500"
  using sources_loop_truncated[of "[]" chunks "{}"] by (simp add: build_sources_def)

lemma build_sources_sorted:
  "sorted_wrt (\<lambda>a b. src_score b \<le> src_score a) (build_sources chunks)"
proof -
  have "sorted (map src_score (sort_key src_score (rev (sources_loop chunks {} []))))"
    by simp
  then have "sorted_wrt (\<lambda>a b. src_score a \<le> src_score b)
               (sort_key src_score (rev (sources_loop chunks {} [])))"
    by (simp only: sorted_map)
  then show ?thesis unfolding build_sources_def by (simp only: sorted_wrt_rev)
qed

lemma build_sources_first:
  "\<forall>s \<in> set (build_sources chunks).
     \<exists>c. find (\<lambda>c. chunk_key c = source_key s) chunks = Some c \<and> s = chunk_source c"
  using sources_loop_first[of chunks "{}" "[]"] by (simp add: build_sources_def)

lemma build_sources_Nil: "build_sources [] = []"
  by (simp add: build_sources_def)

lemma rag_query_sources:
  assumes "fst (rag_query config r chat request) = Inr resp"
  shows "\<exists>retrieved. query_chunks config r request = Inr retrieved \<and>
           resp_sources resp = build_sources retrieved"
proof (cases "query_chunks config r request")
  case (Inl e)
  with assms show ?thesis by (simp add: rag_query_def query_chunks_def Let_def)
next
  case (Inr retrieved)
  show ?thesis
  proof (cases "retrieved = []")
    case True
    with assms Inr have "resp_sources resp = []"
      by (auto simp: rag_query_def query_chunks_def Let_def)
    with Inr True show ?thesis by (simp add: build_sources_Nil)
  next
    case False
    with assms Inr have "resp_sources resp = build_sources retrieved"
      by (auto simp: rag_query_def query_chunks_def Let_def split: sum.splits)
    with Inr show ?thesis by simp
  qed
qed

text \<open>
  Claim C7. The source list built from any list of chunks has no two sources with the
  same pair of document id and page number; the pairs of its sources are exactly the
  pairs of the chunks, so that every pair of the list is kept once; each source is made
  from the first chunk of the list that has its pair, with the first 500 characters of
  the content as excerpt; each excerpt has at most 500 characters; and the scores never
  increase along the list. The source list of every response of the answer engine is
  the source list built from the chunks that the query retrieved, and so has these
  properties.
\<close>

theorem sources_unique_truncated_sorted:
  "distinct (map source_key (build_sources chunks)) \<and>
   source_key ` set (build_sources chunks) = chunk_key ` set chunks \<and>
   (\<forall>s \<in> set (build_sources chunks).
      \<exists>c. find (\<lambda>c. chunk_key c = source_key s) chunks = Some c \<and> s = chunk_source c) \<and>
   (\<forall>s \<in> set (build_sources chunks). length (src_chunk_content s) \<le> 500) \<and>
   sorted_wrt (\<lambda>a b. src_score b \<le> src_score a) (build_sources chunks) \<and>
   (fst (rag_query config r chat request) = Inr resp \<longrightarrow>
      (\<exists>retrieved. query_chunks config r request = Inr retrieved \<and>
         resp_sources resp = build_sources retrieved) \<and>
      distinct (map source_key (resp_sources resp)) \<and>
      (\<forall>s \<in> set (resp_sources resp). length (src_chunk_content s) \<le> 500) \<and>
      sorted_wrt (\<lambda>a b. src_score b \<le> src_score a) (resp_sources resp))"
proof (intro conjI impI)
  show "distinct (map source_key (build_sources chunks))" by (rule build_sources_distinct)
  show "source_key ` set (build_sources chunks) = chunk_key ` set chunks"
    by (rule build_sources_keys)
  show "\<forall>s \<in> set (build_sources chunks).
      \<exists>c. find (\<lambda>c. chunk_key c = source_key s) chunks = Some c \<and> s = chunk_source c"
    by (rule build_sources_first)
  show "\<forall>s \<in> set (build_sources chunks). length (src_chunk_content s) \<le> 500"
    by (rule build_sources_truncated)
  show "sorted_wrt (\<lambda>a b. src_score b \<le> src_score a) (build_sources chunks)"
    by (rule build_sources_sorted)
next
  assume a: "fst (rag_query config r chat request) = Inr resp"
  from rag_query_sources[OF a]
  show "\<exists>retrieved. query_chunks config r request = Inr retrieved \<and>
         resp_sources resp = build_sources retrieved" .
  from rag_query_sources[OF a] obtain retrieved where
    eq: "resp_sources resp = build_sources retrieved" by blast
  show "distinct (map source_key (resp_sources resp))"
    unfolding eq by (rule build_sources_distinct)
  show "\<forall>s \<in> set (resp_sources resp). length (src_chunk_content s) \<le> 500"
    unfolding eq by (rule build_sources_truncated)
  show "sorted_wrt (\<lambda>a b. src_score b \<le> src_score a) (resp_sources resp)"
    unfolding eq by (rule build_sources_sorted)
qed

section \<open>Properties of the retriever\<close>


lemma keys_update: "fst ` set al \<union> {k} = fst ` set (AList.update k v al)"
  using dom_update[of k v al] by auto


lemma context_loop_skip:
  "map_of al (cm_id (doc_chunks ! idx)) \<noteq> None \<Longrightarrow>
   context_loop (rt_times_09 r) chunk doc_chunks (idx # idxs) al = context_loop (rt_times_09 r) chunk doc_chunks idxs al"
  by (cases "map_of al (cm_id (doc_chunks ! idx))") (simp_all add: Let_def)

lemma context_loop_add:
  "map_of al (cm_id (doc_chunks ! idx)) = None \<Longrightarrow>
   context_loop (rt_times_09 r) chunk doc_chunks (idx # idxs) al =
   context_loop (rt_times_09 r) chunk doc_chunks idxs
     (AList.update (cm_id (doc_chunks ! idx)) (context_chunk r chunk (doc_chunks ! idx)) al)"
  by (simp add: Let_def context_chunk_def)


lemma context_loop_keys:
  fixes r :: "('v, 'f) retriever" and doc_chunks :: "'v chunk_model list"
  shows "fst ` set al \<subseteq> fst ` set (context_loop (rt_times_09 r) p doc_chunks idxs al)"
proof (induction idxs arbitrary: al)
  case Nil
  then show ?case by simp
next
  case (Cons idx idxs)
  show ?case
  proof (cases "map_of al (cm_id (doc_chunks ! idx)) = None")
    case False
    show ?thesis unfolding context_loop_skip[OF False] by (rule Cons.IH)
  next
    case True
    let ?al = "AList.update (cm_id (doc_chunks ! idx)) (context_chunk r p (doc_chunks ! idx)) al"
    have "fst ` set al \<subseteq> fst ` set ?al" using keys_update[of al] by blast
    also have "\<dots> \<subseteq> fst ` set (context_loop (rt_times_09 r) p doc_chunks idxs ?al)"
      by (rule Cons.IH)
    finally show ?thesis unfolding context_loop_add[OF True] .
  qed
qed


lemma primary_loop_keys:
  "fst ` set al \<union> rc_chunk_id ` set ps \<subseteq> fst ` set (primary_loop r context_chunks ps al)"
proof (induction ps arbitrary: al)
  case Nil
  then show ?case by simp
next
  case (Cons chunk ps)
  let ?all1 = "AList.update (rc_chunk_id chunk) chunk al"
  let ?rows = "rt_get_by_document r (rc_document_id chunk)"
  have split: "fst ` set al \<union> rc_chunk_id ` set (chunk # ps) =
               (fst ` set al \<union> {rc_chunk_id chunk}) \<union> rc_chunk_id ` set ps"
    by auto
  have k1: "fst ` set al \<union> {rc_chunk_id chunk} = fst ` set ?all1" by (rule keys_update)
  show ?case
  proof (cases "chunk_indices_get ?rows (rc_chunk_id chunk)")
    case None
    then have eq: "primary_loop r context_chunks (chunk # ps) al =
                   primary_loop r context_chunks ps ?all1"
      by (simp add: Let_def)
    show ?thesis unfolding eq split k1 by (rule Cons.IH)
  next
    case (Some current_idx)
    let ?idxs = "[nat (max 0 (int current_idx - context_chunks))..<
                  nat (min (int (length ?rows)) (int current_idx + context_chunks + 1))]"
    let ?all2 = "context_loop (rt_times_09 r) chunk ?rows ?idxs ?all1"
    from Some have eq: "primary_loop r context_chunks (chunk # ps) al =
                        primary_loop r context_chunks ps ?all2"
      by (simp add: Let_def)
    have "fst ` set ?all1 \<union> rc_chunk_id ` set ps \<subseteq> fst ` set ?all2 \<union> rc_chunk_id ` set ps"
      using context_loop_keys[of ?all1 r chunk ?rows ?idxs] by (rule Un_mono) simp
    also have "\<dots> \<subseteq> fst ` set (primary_loop r context_chunks ps ?all2)" by (rule Cons.IH)
    finally show ?thesis unfolding eq split k1 .
  qed
qed


subsection \<open>The entries of the dictionary\<close>











subsection \<open>Context expansion\<close>


lemmas retriever_eval =
  retrieve_with_context_def retrieve_def embed_text_def cached_filename_def
  chunk_indices_get_def context_sort_key_def example_retriever_def example_rows_def
  py_or_def py_def Let_def

lemma example_primary:
  "retrieve (example_retriever score) q (Some 5) None None m =
     Inr (if score < m then [] else
       [\<lparr>rc_chunk_id = 11, rc_document_id = 1, rc_filename = py ''a.pdf'',
         rc_content = py ''second'', rc_page_number = Some 1, rc_score = score\<rparr>])"
  by (simp add: retriever_eval)

lemma example_context:
  "retrieve_with_context (example_retriever (4 / 5)) q (Some 5) None None 1 =
     Inr [\<lparr>rc_chunk_id = 10, rc_document_id = 1, rc_filename = py ''a.pdf'',
            rc_content = py ''first'', rc_page_number = Some 1, rc_score = 18 / 25\<rparr>,
          \<lparr>rc_chunk_id = 11, rc_document_id = 1, rc_filename = py ''a.pdf'',
            rc_content = py ''second'', rc_page_number = Some 1, rc_score = 4 / 5\<rparr>,
          \<lparr>rc_chunk_id = 12, rc_document_id = 1, rc_filename = py ''a.pdf'',
            rc_content = py ''third'', rc_page_number = Some 2, rc_score = 18 / 25\<rparr>]"
  by (simp add: retriever_eval upt_conv_Cons)




subsection \<open>A query on the example document\<close>

lemma example_context_low:
  "retrieve_with_context (example_retriever (1 / 10)) q (Some 5) None None 1 =
     Inr [\<lparr>rc_chunk_id = 10, rc_document_id = 1, rc_filename = py ''a.pdf'',
            rc_content = py ''first'', rc_page_number = Some 1, rc_score = 9 / 100\<rparr>,
          \<lparr>rc_chunk_id = 11, rc_document_id = 1, rc_filename = py ''a.pdf'',
            rc_content = py ''second'', rc_page_number = Some 1, rc_score = 1 / 10\<rparr>,
          \<lparr>rc_chunk_id = 12, rc_document_id = 1, rc_filename = py ''a.pdf'',
            rc_content = py ''third'', rc_page_number = Some 2, rc_score = 9 / 100\<rparr>]"
  by (simp add: retriever_eval upt_conv_Cons)

lemma example_answer:
  "fst (rag_query default_rag_config (example_retriever (4 / 5)) example_chat example_request) =
     Inr \<lparr>resp_answer = py ''generated'',
          resp_sources =
            [\<lparr>src_document_id = 1, src_filename = py ''a.pdf'', src_page_number = Some 1,
              src_chunk_content = py ''first'', src_score = 18 / 25\<rparr>,
             \<lparr>src_document_id = 1, src_filename = py ''a.pdf'', src_page_number = Some 2,
              src_chunk_content = py ''third'', src_score = 18 / 25\<rparr>],
          resp_query = py ''rent?''\<rparr>"
  by (simp add: rag_query_def default_rag_config_def example_request_def example_chat_def
        py_or_def example_context build_sources_def Let_def)
     (simp add: py_def py_strip_def is_space_def)

text \<open>
  The query retrieves three chunks, two of them on page 1: the source of page 1 is made
  from the first of the two, the context chunk, and not from the hit.
\<close>

theorem sources_unique_truncated_sorted_witness:
  "\<exists>resp retrieved.
     fst (rag_query default_rag_config (example_retriever (4 / 5)) example_chat
            example_request) = Inr resp \<and>
     query_chunks default_rag_config (example_retriever (4 / 5)) example_request =
       Inr retrieved \<and>
     map chunk_key retrieved = [(1, Some 1), (1, Some 1), (1, Some 2)] \<and>
     resp_sources resp = build_sources retrieved \<and>
     source_key ` set (resp_sources resp) = chunk_key ` set retrieved \<and>
     map source_key (resp_sources resp) = [(1, Some 1), (1, Some 2)] \<and>
     map src_chunk_content (resp_sources resp) = [py ''first'', py ''third''] \<and>
     distinct (map source_key (resp_sources resp)) \<and>
     (\<forall>s \<in> set (resp_sources resp). length (src_chunk_content s) \<le> 500) \<and>
     sorted_wrt (\<lambda>a b. src_score b \<le> src_score a) (resp_sources resp)"
proof -
  let ?resp = "\<lparr>resp_answer = py ''generated'',
          resp_sources =
            [\<lparr>src_document_id = 1, src_filename = py ''a.pdf'', src_page_number = Some 1,
              src_chunk_content = py ''first'', src_score = 18 / 25\<rparr>,
             \<lparr>src_document_id = 1, src_filename = py ''a.pdf'', src_page_number = Some 2,
              src_chunk_content = py ''third'', src_score = (18 / 25 :: real)\<rparr>],
          resp_query = py ''rent?''\<rparr>"
  let ?retrieved =
        "[\<lparr>rc_chunk_id = 10, rc_document_id = 1, rc_filename = py ''a.pdf'',
            rc_content = py ''first'', rc_page_number = Some 1, rc_score = 18 / 25\<rparr>,
          \<lparr>rc_chunk_id = 11, rc_document_id = 1, rc_filename = py ''a.pdf'',
            rc_content = py ''second'', rc_page_number = Some 1, rc_score = 4 / 5\<rparr>,
          \<lparr>rc_chunk_id = 12, rc_document_id = 1, rc_filename = py ''a.pdf'',
            rc_content = py ''third'', rc_page_number = Some 2, rc_score = (18 / 25 :: real)\<rparr>]"
  note e = example_answer
  have q: "query_chunks default_rag_config (example_retriever (4 / 5)) example_request =
             Inr ?retrieved"
    by (simp add: query_chunks_def default_rag_config_def example_request_def py_or_def
          example_context)
  have ck: "map chunk_key ?retrieved = [(1, Some 1), (1, Some 1), (1, Some 2)]"
    by (simp add: chunk_key_def)
  have k: "map source_key (resp_sources ?resp) = [(1, Some 1), (1, Some 2)]"
    by (simp add: source_key_def)
  have c: "map src_chunk_content (resp_sources ?resp) = [py ''first'', py ''third'']"
    by simp
  note all = sources_unique_truncated_sorted[of ?retrieved default_rag_config
      "example_retriever (4 / 5)" example_chat example_request ?resp]
  note inst = all[THEN conjunct2, THEN conjunct2, THEN conjunct2, THEN conjunct2,
      THEN conjunct2, rule_format, OF e]
  from inst[THEN conjunct1] q have b: "resp_sources ?resp = build_sources ?retrieved"
    by (elim exE conjE) (simp only: sum.inject)
  from all[THEN conjunct2, THEN conjunct1]
  have ks: "source_key ` set (resp_sources ?resp) = chunk_key ` set ?retrieved"
    unfolding b[symmetric] .
  note d = inst[THEN conjunct2, THEN conjunct1]
  note l = inst[THEN conjunct2, THEN conjunct2, THEN conjunct1]
  note s = inst[THEN conjunct2, THEN conjunct2, THEN conjunct2]
  show ?thesis
    by (intro exI[of _ ?resp] exI[of _ ?retrieved] conjI) (fact e q ck b ks k c d l s)+
qed

text \<open>
  Claim C8. The answer engine in its default configuration (context expansion on,
  \<open>min_score\<close> 0.3), and a search whose only hit has the score 0.1: no chunk reaches
  \<open>min_score\<close>, and the plain retrieval with \<open>min_score\<close> returns nothing. Yet the query
  sends a prompt to the generation service and answers with what it generates, citing
  sources, because \<open>retrieve_with_context\<close> calls the retrieval with the threshold 0. With
  context expansion off, the same query gives the fixed answer, no source and no call.
\<close>

theorem context_path_ignores_min_score:
  "cfg_include_context default_rag_config \<and>
   cfg_min_score default_rag_config = 3 / 10 \<and>
   rt_search_similar (example_retriever (1 / 10)) 0 5 None None = [(example_rows ! 1, 1 / 10)] \<and>
   retrieve (example_retriever (1 / 10)) (py ''rent?'') (Some 5) None None
     (cfg_min_score default_rag_config) = Inr [] \<and>
   fst (rag_query default_rag_config (example_retriever (1 / 10)) example_chat example_request) =
     Inr \<lparr>resp_answer = py ''generated'',
          resp_sources =
            [\<lparr>src_document_id = 1, src_filename = py ''a.pdf'', src_page_number = Some 1,
              src_chunk_content = py ''first'', src_score = 9 / 100\<rparr>,
             \<lparr>src_document_id = 1, src_filename = py ''a.pdf'', src_page_number = Some 2,
              src_chunk_content = py ''third'', src_score = 9 / 100\<rparr>],
          resp_query = py ''rent?''\<rparr> \<and>
   length (snd (rag_query default_rag_config (example_retriever (1 / 10)) example_chat
                  example_request)) = 1 \<and>
   rag_query (default_rag_config\<lparr>cfg_include_context := False\<rparr>) (example_retriever (1 / 10))
     example_chat example_request =
     (Inr \<lparr>resp_answer = NO_INFORMATION_ANSWER, resp_sources = [],
           resp_query = py ''rent?''\<rparr>, [])"
proof (intro conjI)
  show "cfg_include_context default_rag_config" by (simp add: default_rag_config_def)
  show "cfg_min_score default_rag_config = 3 / 10" by (simp add: default_rag_config_def)
  show "rt_search_similar (example_retriever (1 / 10)) 0 5 None None = [(example_rows ! 1, 1 / 10)]"
    by (simp add: example_retriever_def)
  show "retrieve (example_retriever (1 / 10)) (py ''rent?'') (Some 5) None None
     (cfg_min_score default_rag_config) = Inr []"
    by (simp add: example_primary default_rag_config_def)
  show "fst (rag_query default_rag_config (example_retriever (1 / 10)) example_chat example_request) =
     Inr \<lparr>resp_answer = py ''generated'',
          resp_sources =
            [\<lparr>src_document_id = 1, src_filename = py ''a.pdf'', src_page_number = Some 1,
              src_chunk_content = py ''first'', src_score = 9 / 100\<rparr>,
             \<lparr>src_document_id = 1, src_filename = py ''a.pdf'', src_page_number = Some 2,
              src_chunk_content = py ''third'', src_score = 9 / 100\<rparr>],
          resp_query = py ''rent?''\<rparr>"
    by (simp add: rag_query_def default_rag_config_def example_request_def example_chat_def
        py_or_def example_context_low build_sources_def Let_def)
       (simp add: py_def py_strip_def is_space_def)
  show "length (snd (rag_query default_rag_config (example_retriever (1 / 10)) example_chat
                  example_request)) = 1"
    by (simp add: rag_query_def default_rag_config_def example_request_def example_chat_def
        py_or_def example_context_low Let_def)
  show "rag_query (default_rag_config\<lparr>cfg_include_context := False\<rparr>) (example_retriever (1 / 10))
     example_chat example_request =
     (Inr \<lparr>resp_answer = NO_INFORMATION_ANSWER, resp_sources = [],
           resp_query = py ''rent?''\<rparr>, [])"
    by (simp add: rag_query_def default_rag_config_def example_request_def
        py_or_def example_primary Let_def)
qed

section \<open>Properties of the ingestion pipeline\<close>

subsection \<open>What the repository calls leave unchanged\<close>

lemma update_status_dom [simp]:
  "dom (st_documents (doc_repo_update_status s d status pc)) = dom (st_documents s)"
  by (auto simp: doc_repo_update_status_def split: option.splits)

lemma update_status_sets:
  "d \<in> dom (st_documents s) \<Longrightarrow>
   map_option doc_status (st_documents (doc_repo_update_status s d status pc) d) = Some status"
  by (auto simp: doc_repo_update_status_def split: option.splits)

lemma update_type_dom [simp]:
  "dom (st_documents (doc_repo_update_type s d t)) = dom (st_documents s)"
  by (auto simp: doc_repo_update_type_def split: option.splits)

lemma create_many_documents [simp]:
  "st_documents (chunk_repo_create_many u s d rows) = st_documents s"
  by (simp add: chunk_repo_create_many_def)

lemma extractor_extract_error:
  "extractor_extract core text t = Inl e \<Longrightarrow> exn_class e = ExtractionError"
  by (auto simp: extractor_extract_def raise_from_def split: if_splits sum.splits)

lemma extract_and_store_documents:
  "extract_and_store pl s d text t = Inr s' \<Longrightarrow> st_documents s' = st_documents s"
  by (auto simp: extract_and_store_def extracted_repo_create_def split: sum.splits prod.splits if_splits)

lemma extract_and_store_succeeds: "\<exists>s'. extract_and_store pl s d text t = Inr s'"
proof (cases "extractor_extract (pl_extract_core pl) text t")
  case (Inl e)
  with extractor_extract_error[OF Inl] show ?thesis by (simp add: extract_and_store_def)
next
  case (Inr result)
  then show ?thesis by (cases result) (simp add: extract_and_store_def)
qed

subsection \<open>The body of the try block\<close>

lemma ingest_try_dom:
  "dom (st_documents (snd (snd (ingest_try pl s0 d parsed t a)))) = dom (st_documents s0)"
  unfolding ingest_try_def Let_def
  by (simp split: sum.split option.split prod.split add: extract_and_store_documents)

lemma ingest_try_parse:
  "parsed = Inl e \<Longrightarrow>
   fst (ingest_try pl s0 d parsed t a) = Some e \<and> \<not> fst (snd (ingest_try pl s0 d parsed t a))"
  by (simp add: ingest_try_def)

lemma ingest_try_classify:
  "parsed = Inr doc \<Longrightarrow> t = UNKNOWN \<Longrightarrow> classify (pl_label pl) (full_text doc) = Inl e \<Longrightarrow>
   fst (ingest_try pl s0 d parsed t a) = Some e \<and> \<not> fst (snd (ingest_try pl s0 d parsed t a))"
  by (simp add: ingest_try_def)

lemma ingest_try_embed:
  "parsed = Inr doc \<Longrightarrow> (t = UNKNOWN \<longrightarrow> classify (pl_label pl) (full_text doc) = Inr t') \<Longrightarrow>
   pl_chunk_document pl doc = Inr cs \<Longrightarrow> cs \<noteq> [] \<Longrightarrow>
   embed_chunks (pl_create pl) cs = Inl e \<Longrightarrow>
   fst (ingest_try pl s0 d parsed t a) = Some e \<and> \<not> fst (snd (ingest_try pl s0 d parsed t a))"
  by (cases "t = UNKNOWN") (simp_all add: ingest_try_def)

subsection \<open>The handlers\<close>

lemma ingestion_error_class [simp]: "exn_class (ingestion_error e) = IngestionError"
  by (simp add: ingestion_error_def raise_from_def)

lemma ingest_outcome:
  "fst (ingest pl s filename parsed t project a) =
     (case ingest_try pl (snd (doc_repo_create (pl_uuid4 pl) s filename t project))
             (pl_uuid4 pl (st_uuid_count s)) parsed t a of
        (None, rolled_back, s') \<Rightarrow> Inr (pl_uuid4 pl (st_uuid_count s))
      | (Some e, rolled_back, s') \<Rightarrow>
          if rolled_back then Inl (Exn PendingRollbackError (pl_rollback_message pl e) None)
          else Inl (ingestion_error e))"
  by (simp add: ingest_def doc_repo_create_def ingestion_error_def Let_def
           split: prod.split option.split)

lemma ingest_stage_error:
  assumes "fst (ingest_try pl (snd (doc_repo_create (pl_uuid4 pl) s filename t project))
                  (pl_uuid4 pl (st_uuid_count s)) parsed t a) = Some e \<and>
           \<not> fst (snd (ingest_try pl (snd (doc_repo_create (pl_uuid4 pl) s filename t project))
                  (pl_uuid4 pl (st_uuid_count s)) parsed t a))"
  shows "fst (ingest pl s filename parsed t project a) = Inl (ingestion_error e)"
proof -
  obtain r rb s1 where
    "ingest_try pl (snd (doc_repo_create (pl_uuid4 pl) s filename t project))
       (pl_uuid4 pl (st_uuid_count s)) parsed t a = (r, rb, s1)"
    by (cases "ingest_try pl (snd (doc_repo_create (pl_uuid4 pl) s filename t project))
                 (pl_uuid4 pl (st_uuid_count s)) parsed t a")
  with assms show ?thesis by (simp add: ingest_outcome)
qed

lemma ingest_failed_status:
  assumes "fst (ingest pl s filename parsed t project a) = Inl err"
    and "exn_class err = IngestionError"
  shows "(\<exists>e. err = ingestion_error e) \<and>
         map_option doc_status
           (st_documents (snd (ingest pl s filename parsed t project a))
              (pl_uuid4 pl (st_uuid_count s))) = Some FAILED"
proof -
  let ?d = "pl_uuid4 pl (st_uuid_count s)"
  let ?s0 = "snd (doc_repo_create (pl_uuid4 pl) s filename t project)"
  obtain r rb s1 where run: "ingest_try pl ?s0 ?d parsed t a = (r, rb, s1)"
    by (cases "ingest_try pl ?s0 ?d parsed t a")
  have "?d \<in> dom (st_documents ?s0)" by (simp add: doc_repo_create_def Let_def)
  with ingest_try_dom[of pl ?s0 ?d parsed t a] run have here: "?d \<in> dom (st_documents s1)"
    by simp
  from assms(1) run obtain e where r: "r = Some e"
    by (cases r) (simp_all add: ingest_outcome)
  from assms run r have rb: "\<not> rb"
    by (cases rb) (auto simp: ingest_outcome)
  from assms(1) run r rb have err: "err = ingestion_error e" by (simp add: ingest_outcome)
  have "snd (ingest pl s filename parsed t project a) = doc_repo_update_status s1 ?d FAILED None"
    using run r rb by (simp add: ingest_def doc_repo_create_def Let_def)
  with update_status_sets[OF here] err show ?thesis by auto
qed

text \<open>
  Claim C1, as amended. Whenever \<open>ingest_file\<close> or \<open>ingest_bytes\<close> raises an
  \<open>IngestionError\<close>, the status of the new document is \<open>FAILED\<close> in the store that the call
  leaves, and the error is the one made of the exception \<open>e\<close> that left the \<^verbatim>\<open>try\<close> block:
  its message is \<^verbatim>\<open>Failed to parse PDF: \<close> for a \<open>PDFParserError\<close> and \<^verbatim>\<open>Ingestion failed: \<close>
  for any other exception, followed by the message of \<open>e\<close>, and its cause is \<open>e\<close>. An
  exception of the parser, of the classification or of the embedding makes the call
  raise the \<open>IngestionError\<close> made of it, so that the status is \<open>FAILED\<close> then. Nothing is said
  of a call in which the flush of the chunk persistence fails.
\<close>

theorem ingestion_failure_marks_failed:
  assumes "(run, parsed) = (ingest_file pl s file_path t project a, pl_parse pl file_path) \<or>
           (run, parsed) = (ingest_bytes pl s file_content filename t project a,
                            pl_parse_bytes pl file_content filename)"
  shows
    "(\<forall>err. fst run = Inl err \<and> exn_class err = IngestionError \<longrightarrow>
        (\<exists>e. err = ingestion_error e) \<and>
        map_option doc_status (st_documents (snd run) (pl_uuid4 pl (st_uuid_count s))) =
          Some FAILED) \<and>
     (\<forall>e. parsed = Inl e \<longrightarrow> fst run = Inl (ingestion_error e)) \<and>
     (\<forall>doc e. parsed = Inr doc \<and> t = UNKNOWN \<and>
         classify (pl_label pl) (full_text doc) = Inl e \<longrightarrow>
         fst run = Inl (ingestion_error e)) \<and>
     (\<forall>doc t' cs e. parsed = Inr doc \<and>
         (t = UNKNOWN \<longrightarrow> classify (pl_label pl) (full_text doc) = Inr t') \<and>
         pl_chunk_document pl doc = Inr cs \<and> cs \<noteq> [] \<and>
         embed_chunks (pl_create pl) cs = Inl e \<longrightarrow>
         fst run = Inl (ingestion_error e))"
proof -
  from assms obtain name where run: "run = ingest pl s name parsed t project a"
    by (auto simp: ingest_file_def ingest_bytes_def)
  let ?d = "pl_uuid4 pl (st_uuid_count s)"
  let ?s0 = "snd (doc_repo_create (pl_uuid4 pl) s name t project)"
  note out = ingest_stage_error[of pl s name t project parsed a]
  have 1: "\<forall>err. fst run = Inl err \<and> exn_class err = IngestionError \<longrightarrow>
        (\<exists>e. err = ingestion_error e) \<and>
        map_option doc_status (st_documents (snd run) ?d) = Some FAILED"
    unfolding run using ingest_failed_status[of pl s name parsed t project a] by blast
  have 3: "\<forall>e. parsed = Inl e \<longrightarrow> fst run = Inl (ingestion_error e)"
  proof (intro allI impI)
    fix e assume "parsed = Inl e"
    then show "fst run = Inl (ingestion_error e)"
      unfolding run by (intro out ingest_try_parse)
  qed
  have 4: "\<forall>doc e. parsed = Inr doc \<and> t = UNKNOWN \<and>
         classify (pl_label pl) (full_text doc) = Inl e \<longrightarrow>
         fst run = Inl (ingestion_error e)"
  proof (intro allI impI)
    fix doc e
    assume "parsed = Inr doc \<and> t = UNKNOWN \<and> classify (pl_label pl) (full_text doc) = Inl e"
    then show "fst run = Inl (ingestion_error e)"
      unfolding run by (intro out ingest_try_classify[of parsed doc t pl e]) simp_all
  qed
  have 5: "\<forall>doc t' cs e. parsed = Inr doc \<and>
         (t = UNKNOWN \<longrightarrow> classify (pl_label pl) (full_text doc) = Inr t') \<and>
         pl_chunk_document pl doc = Inr cs \<and> cs \<noteq> [] \<and>
         embed_chunks (pl_create pl) cs = Inl e \<longrightarrow>
         fst run = Inl (ingestion_error e)"
  proof (intro allI impI)
    fix doc t' cs e
    assume h: "parsed = Inr doc \<and>
         (t = UNKNOWN \<longrightarrow> classify (pl_label pl) (full_text doc) = Inr t') \<and>
         pl_chunk_document pl doc = Inr cs \<and> cs \<noteq> [] \<and>
         embed_chunks (pl_create pl) cs = Inl e"
    then show "fst run = Inl (ingestion_error e)"
      unfolding run by (intro out ingest_try_embed[of parsed doc t pl t' cs e]) simp_all
  qed
  from 1 3 4 5 show ?thesis by (intro conjI)
qed

lemma example_classification_fails:
  "classify (pl_label example_pipeline) (full_text three_pages) =
     Inl (Exn ClassificationError ''Failed to classify document: timeout''
            (Some (Exn OtherException ''timeout'' None)))"
  by (simp add: classify_def example_pipeline_def full_text_def three_pages_def py_def
        py_strip_def is_space_def raise_from_def)

theorem ingestion_failure_marks_failed_witness:
  "pl_parse_bytes example_pipeline [] (py ''a.pdf'') = Inr three_pages \<and>
   classify (pl_label example_pipeline) (full_text three_pages) =
     Inl (Exn ClassificationError ''Failed to classify document: timeout''
            (Some (Exn OtherException ''timeout'' None))) \<and>
   fst (ingest_bytes example_pipeline empty_store [] (py ''a.pdf'') UNKNOWN None True) =
     Inl (Exn IngestionError ''Ingestion failed: Failed to classify document: timeout''
            (Some (Exn ClassificationError ''Failed to classify document: timeout''
                     (Some (Exn OtherException ''timeout'' None))))) \<and>
   map_option doc_status
     (st_documents (snd (ingest_bytes example_pipeline empty_store [] (py ''a.pdf'') UNKNOWN
                           None True)) 100) = Some FAILED"
proof -
  let ?run = "ingest_bytes example_pipeline empty_store [] (py ''a.pdf'') UNKNOWN None True"
  let ?e = "Exn ClassificationError ''Failed to classify document: timeout''
              (Some (Exn OtherException ''timeout'' None))"
  have parsed: "pl_parse_bytes example_pipeline [] (py ''a.pdf'') = Inr three_pages"
    by (simp add: example_pipeline_def)
  note inst = ingestion_failure_marks_failed[of ?run
      "pl_parse_bytes example_pipeline [] (py ''a.pdf'')" example_pipeline empty_store "[]"
      UNKNOWN None True "[]" "py ''a.pdf''", OF disjI2[OF refl]]
  from inst[THEN conjunct2, THEN conjunct2, THEN conjunct1, rule_format,
      of three_pages ?e] parsed example_classification_fails
  have r: "fst ?run = Inl (ingestion_error ?e)" by simp
  then have "fst ?run = Inl (ingestion_error ?e) \<and>
             exn_class (ingestion_error ?e) = IngestionError" by simp
  from inst[THEN conjunct1, rule_format, OF this]
  have st: "map_option doc_status
     (st_documents (snd ?run) (pl_uuid4 example_pipeline (st_uuid_count empty_store))) =
     Some FAILED" by simp
  have id: "pl_uuid4 example_pipeline (st_uuid_count empty_store) = 100"
    by (simp add: example_pipeline_def empty_store_def)
  have ie: "ingestion_error ?e =
     Exn IngestionError ''Ingestion failed: Failed to classify document: timeout'' (Some ?e)"
    by (simp add: ingestion_error_def raise_from_def)
  from parsed example_classification_fails r st show ?thesis unfolding id ie by simp
qed

text \<open>
  The claim as first stated has the error name the stage that failed, and has it raised
  with the status \<open>FAILED\<close> after a failure of the chunk persistence too. A \<^verbatim>\<open>ValueError\<close> of
  the chunker and the \<^verbatim>\<open>ValueError\<close> that the embedding raises for an answer with no item
  give the same \<open>IngestionError\<close>, with the message
  \<^verbatim>\<open>Ingestion failed: zip() argument 2 is shorter than argument 1\<close>: outside the parser's
  handler the error tells the underlying exception, not the stage. And when the flush of
  \<^verbatim>\<open>create_many\<close> fails, the status write of the handler raises \<open>PendingRollbackError\<close>: this
  is the exception that reaches the caller, and the status of the document is not
  \<open>FAILED\<close>.
\<close>

theorem ingestion_failure_counterexample:
  "pl_chunk_document chunker_fails three_pages = Inl zip_error \<and>
   fst (ingest_bytes chunker_fails empty_store [] (py ''a.pdf'') MIETVERTRAG None True) =
     Inl (Exn IngestionError ''Ingestion failed: zip() argument 2 is shorter than argument 1''
            (Some zip_error)) \<and>
   pl_chunk_document embedding_fails three_pages = Inr [one_chunk] \<and>
   embed_chunks (pl_create embedding_fails) [one_chunk] = Inl zip_error \<and>
   fst (ingest_bytes embedding_fails empty_store [] (py ''a.pdf'') MIETVERTRAG None True) =
     Inl (Exn IngestionError ''Ingestion failed: zip() argument 2 is shorter than argument 1''
            (Some zip_error)) \<and>
   pl_chunk_document persistence_fails three_pages = Inr [one_chunk] \<and>
   embed_chunks (pl_create persistence_fails) [one_chunk] = Inr [(one_chunk, 2)] \<and>
   pl_create_many_error persistence_fails = Some out_of_memory \<and>
   fst (ingest_bytes persistence_fails empty_store [] (py ''a.pdf'') MIETVERTRAG None True) =
     Inl (Exn PendingRollbackError ''rolled back: out of memory'' None) \<and>
   map_option doc_status
     (st_documents (snd (ingest_bytes persistence_fails empty_store [] (py ''a.pdf'')
                           MIETVERTRAG None True)) 100) \<noteq> Some FAILED"
proof -
  have emb: "embed_chunks reversing_service [one_chunk] = Inr [(one_chunk, 2)]"
    by (simp add: embed_chunks_def embed_texts_def embed_texts_with_def MAX_BATCH_SIZE_def
          py_range_step_def reversing_service_def one_chunk_def py_def Let_def)
  have short: "embed_chunks (\<lambda>batch. Inr []) [one_chunk] = (Inl zip_error :: exn + (text_chunk \<times> nat) list)"
    by (simp add: embed_chunks_def embed_texts_def embed_texts_with_def MAX_BATCH_SIZE_def
          py_range_step_def one_chunk_def py_def zip_error_def Let_def)
  have a: "fst (ingest_bytes chunker_fails empty_store [] (py ''a.pdf'') MIETVERTRAG None True) =
     Inl (Exn IngestionError ''Ingestion failed: zip() argument 2 is shorter than argument 1''
            (Some zip_error))"
    by (simp add: ingest_bytes_def ingest_def ingest_try_def doc_repo_create_def
          chunker_fails_def example_pipeline_def zip_error_def raise_from_def Let_def)
  have b: "fst (ingest_bytes embedding_fails empty_store [] (py ''a.pdf'') MIETVERTRAG None True) =
     Inl (Exn IngestionError ''Ingestion failed: zip() argument 2 is shorter than argument 1''
            (Some zip_error))"
    by (simp add: ingest_bytes_def ingest_def ingest_try_def doc_repo_create_def
          embedding_fails_def example_pipeline_def short raise_from_def Let_def)
       (simp add: zip_error_def)
  have c: "ingest_bytes persistence_fails empty_store [] (py ''a.pdf'') MIETVERTRAG None True =
     (Inl (Exn PendingRollbackError ''rolled back: out of memory'' None),
      empty_store\<lparr>st_uuid_count := 1\<rparr>)"
    by (simp add: ingest_bytes_def ingest_def ingest_try_def doc_repo_create_def
          doc_repo_update_status_def persistence_fails_def example_pipeline_def emb
          empty_store_def Let_def)
       (simp add: out_of_memory_def)
  have d: "map_option doc_status
     (st_documents (snd (ingest_bytes persistence_fails empty_store [] (py ''a.pdf'')
                           MIETVERTRAG None True)) 100) \<noteq> Some FAILED"
    unfolding c by (simp add: empty_store_def)
  show ?thesis
    using a b c d emb short
    by (simp add: chunker_fails_def embedding_fails_def persistence_fails_def
          example_pipeline_def)
qed

section \<open>Properties of the re-extraction\<close>

lemma extract_document_outcome:
  "extract_document pl s document_id force = (res, s') \<Longrightarrow>
   st_documents s' = st_documents s \<and> st_chunks s' = st_chunks s \<and>
   (\<forall>d. d \<noteq> document_id \<longrightarrow> st_extracted s' d = st_extracted s d) \<and> (\<exists>v. res = Inr v)"
  by (auto simp: extract_document_def Let_def extracted_repo_update_def extracted_repo_create_def
        split: option.splits if_splits sum.splits prod.splits dest: extractor_extract_error)

lemma extract_document_failure:
  assumes "force \<or> st_extracted s document_id = None"
    and "st_documents s document_id = Some document"
    and "extractor_extract (pl_extract_core pl) (document_text s document_id)
           (doc_document_type document) = Inl e"
  shows "extract_document pl s document_id force = (Inr None, s)"
  using assms extractor_extract_error[OF assms(3)]
  by (auto simp: extract_document_def document_text_def Let_def)

text \<open>
  Claim C9. For every document id and force flag, \<open>extract_document\<close> leaves the
  documents, and so every status, and the chunks as they were, and changes at most the
  extracted record of the document asked for. It never raises; and when it runs the
  extraction (forced, or no record yet) and the extraction fails, it returns \<open>None\<close> and
  leaves the whole store as it was.
\<close>

theorem extract_document_frame:
  "st_documents (snd (extract_document pl s document_id force)) = st_documents s \<and>
   st_chunks (snd (extract_document pl s document_id force)) = st_chunks s \<and>
   (\<forall>d. d \<noteq> document_id \<longrightarrow>
      st_extracted (snd (extract_document pl s document_id force)) d = st_extracted s d) \<and>
   (\<exists>v. fst (extract_document pl s document_id force) = Inr v) \<and>
   (\<forall>document e.
      (force \<or> st_extracted s document_id = None) \<and>
      st_documents s document_id = Some document \<and>
      extractor_extract (pl_extract_core pl) (document_text s document_id)
        (doc_document_type document) = Inl e \<longrightarrow>
      extract_document pl s document_id force = (Inr None, s))"
proof -
  obtain res s' where r: "extract_document pl s document_id force = (res, s')"
    by (cases "extract_document pl s document_id force")
  from extract_document_outcome[OF r] r extract_document_failure[of force s document_id _ pl]
  show ?thesis by auto
qed

theorem extract_document_frame_witness:
  "st_documents contract_store 7 =
     Some \<lparr>doc_filename = py ''c.pdf'', doc_document_type = MIETVERTRAG,
           doc_status = COMPLETED, doc_page_count = Some 1, doc_project_id = None\<rparr> \<and>
   document_text contract_store 7 = py ''a'' @ [10, 10] @ py ''b'' \<and>
   extractor_extract (pl_extract_core example_pipeline) (document_text contract_store 7)
     MIETVERTRAG =
     Inl (Exn ExtractionError ''Extraction failed: no JSON''
            (Some (Exn OtherException ''no JSON'' None))) \<and>
   extract_document example_pipeline contract_store 7 False = (Inr None, contract_store) \<and>
   map_option doc_status
     (st_documents (snd (extract_document example_pipeline contract_store 7 False)) 7) =
     Some COMPLETED"
proof -
  let ?doc = "\<lparr>doc_filename = py ''c.pdf'', doc_document_type = MIETVERTRAG,
           doc_status = COMPLETED, doc_page_count = Some 1, doc_project_id = None\<rparr>"
  let ?e = "Exn ExtractionError ''Extraction failed: no JSON''
            (Some (Exn OtherException ''no JSON'' None))"
  have d: "st_documents contract_store 7 = Some ?doc" by (simp add: contract_store_def)
  have x: "st_extracted contract_store 7 = None" by (simp add: contract_store_def)
  have t: "document_text contract_store 7 = py ''a'' @ [10, 10] @ py ''b''"
    by (simp add: document_text_def contract_store_def py_def)
  have f: "extractor_extract (pl_extract_core example_pipeline) (document_text contract_store 7)
     (doc_document_type ?doc) = Inl ?e"
    by (simp add: extractor_extract_def example_pipeline_def raise_from_def)
  note inst = extract_document_frame[of example_pipeline contract_store 7 False]
  from inst[THEN conjunct2, THEN conjunct2, THEN conjunct2, THEN conjunct2, rule_format,
        of ?doc ?e] d x f
  have r: "extract_document example_pipeline contract_store 7 False = (Inr None, contract_store)"
    by simp
  from inst[THEN conjunct1] d
  have st: "map_option doc_status
     (st_documents (snd (extract_document example_pipeline contract_store 7 False)) 7) =
     Some COMPLETED" by simp
  from d t f r st show ?thesis by simp
qed

end
